theory Spec2Isabelle
  imports Complex_Main "HOL-Library.AList"
begin

section \<open>JavaScript values as they reach \<open>lib/api.ts\<close>\<close>

text \<open>
  A JavaScript number is a rational or one of the three special values. Rounding,
  overflow and the sign of zero are not modelled: the single zero stands for \<open>+0\<close>.
  \<open>JSON.parse\<close> never yields \<open>NaN\<close> but does yield \<open>Infinity\<close> (for \<open>1e999\<close>).
\<close>

datatype number = Fin rat | PosInf | NegInf | NaN

text \<open>
  A value is what \<open>JSON.parse\<close> returns, or \<open>undefined\<close>. \<open>JObj kvs\<close> lists the own
  properties in the order \<open>Object.entries\<close> reports them; a parsed object has no two
  properties of one name.
\<close>

datatype js =
    JUndef
  | JNull
  | JBool bool
  | JNum number
  | JStr string
  | JArr "js list"
  | JObj "(string \<times> js) list"

text \<open>
  What is thrown: the error of a failed request, the two built-in errors the code can
  meet, the two errors \<open>lib/api.ts\<close> throws itself, and the exception of
  \<open>localStorage\<close> (a \<open>SecurityError\<close> when the store is blocked, a
  \<open>QuotaExceededError\<close> when it is full).
\<close>

datatype error =
    TransportError
  | TypeError
  | RangeError
  | UnexpectedShape
  | FallbackUnavailable
  | StorageError

subsection \<open>Numbers\<close>

fun isFinite :: "number \<Rightarrow> bool" where
  "isFinite (Fin _) = True"
| "isFinite _ = False"

fun num_div :: "number \<Rightarrow> number \<Rightarrow> number" where
  "num_div (Fin a) (Fin b) =
     (if b \<noteq> 0 then Fin (a / b)
      else if a = 0 then NaN else if 0 < a then PosInf else NegInf)"
| "num_div (Fin a) PosInf = Fin 0"
| "num_div (Fin a) NegInf = Fin 0"
| "num_div PosInf (Fin b) = (if 0 \<le> b then PosInf else NegInf)"
| "num_div NegInf (Fin b) = (if 0 \<le> b then NegInf else PosInf)"
| "num_div _ _ = NaN"

fun num_mul :: "number \<Rightarrow> number \<Rightarrow> number" where
  "num_mul (Fin a) (Fin b) = Fin (a * b)"
| "num_mul (Fin a) PosInf = (if a = 0 then NaN else if 0 < a then PosInf else NegInf)"
| "num_mul (Fin a) NegInf = (if a = 0 then NaN else if 0 < a then NegInf else PosInf)"
| "num_mul PosInf (Fin b) = (if b = 0 then NaN else if 0 < b then PosInf else NegInf)"
| "num_mul NegInf (Fin b) = (if b = 0 then NaN else if 0 < b then NegInf else PosInf)"
| "num_mul PosInf PosInf = PosInf"
| "num_mul NegInf NegInf = PosInf"
| "num_mul PosInf NegInf = NegInf"
| "num_mul NegInf PosInf = NegInf"
| "num_mul _ _ = NaN"

fun num_sub :: "number \<Rightarrow> number \<Rightarrow> number" where
  "num_sub (Fin a) (Fin b) = Fin (a - b)"
| "num_sub (Fin a) PosInf = NegInf"
| "num_sub (Fin a) NegInf = PosInf"
| "num_sub PosInf (Fin b) = PosInf"
| "num_sub NegInf (Fin b) = NegInf"
| "num_sub PosInf NegInf = PosInf"
| "num_sub NegInf PosInf = NegInf"
| "num_sub _ _ = NaN"

fun num_lt :: "number \<Rightarrow> number \<Rightarrow> bool" where
  "num_lt (Fin a) (Fin b) = (a < b)"
| "num_lt (Fin a) PosInf = True"
| "num_lt NegInf (Fin b) = True"
| "num_lt NegInf PosInf = True"
| "num_lt _ _ = False"

subsection \<open>Strings\<close>

text \<open>
  Strings are restricted to ASCII: \<open>toUpperCase\<close> maps \<open>a\<close>..\<open>z\<close> and leaves every other
  character, \<open>trim\<close> strips space, tab, line feed, vertical tab, form feed and
  carriage return.
\<close>

definition is_upper :: "char \<Rightarrow> bool" where
  "is_upper c = (65 \<le> (of_char c :: nat) \<and> (of_char c :: nat) \<le> 90)"

definition is_lower :: "char \<Rightarrow> bool" where
  "is_lower c = (97 \<le> (of_char c :: nat) \<and> (of_char c :: nat) \<le> 122)"

definition is_digit :: "char \<Rightarrow> bool" where
  "is_digit c = (48 \<le> (of_char c :: nat) \<and> (of_char c :: nat) \<le> 57)"

definition is_space :: "char \<Rightarrow> bool" where
  "is_space c = ((of_char c :: nat) = 32 \<or> (9 \<le> (of_char c :: nat) \<and> (of_char c :: nat) \<le> 13))"

text \<open>An ASCII lower-case letter and its upper-case letter differ in bit 5 only.\<close>

definition upper_char :: "char \<Rightarrow> char" where
  "upper_char c =
     (if is_lower c
      then (case c of Char b0 b1 b2 b3 b4 b5 b6 b7 \<Rightarrow> Char b0 b1 b2 b3 b4 False b6 b7)
      else c)"

definition toUpperCase :: "string \<Rightarrow> string" where
  "toUpperCase s = map upper_char s"

definition trim :: "string \<Rightarrow> string" where
  "trim s = rev (dropWhile is_space (rev (dropWhile is_space s)))"

text \<open>The regular expression \<open>/^[A-Z]{3,5}$/\<close>, applied to a string.\<close>

definition code_pattern :: "string \<Rightarrow> bool" where
  "code_pattern s = (3 \<le> length s \<and> length s \<le> 5 \<and> list_all is_upper s)"

fun join :: "string \<Rightarrow> string list \<Rightarrow> string" where
  "join sep [] = []"
| "join sep [s] = s"
| "join sep (s # t # ts) = s @ sep @ join sep (t # ts)"

text \<open>\<open>[...new Set(xs)]\<close>: the first occurrence of each element, in order.\<close>

fun uniq_acc :: "'a list \<Rightarrow> 'a list \<Rightarrow> 'a list" where
  "uniq_acc seen [] = []"
| "uniq_acc seen (x # xs) =
     (if x \<in> set seen then uniq_acc seen xs else x # uniq_acc (x # seen) xs)"

definition uniq :: "'a list \<Rightarrow> 'a list" where
  "uniq xs = uniq_acc [] xs"

subsection \<open>Decimal array indices\<close>

definition digit_char :: "nat \<Rightarrow> char" where
  "digit_char d = ''0123456789'' ! d"

fun show_nat :: "nat \<Rightarrow> string" where
  "show_nat n = (if n < 10 then [digit_char n] else show_nat (n div 10) @ [digit_char (n mod 10)])"

declare show_nat.simps [simp del]

definition digit_val :: "char \<Rightarrow> nat" where
  "digit_val c = (of_char c :: nat) - 48"

definition read_nat :: "string \<Rightarrow> nat" where
  "read_nat s = foldl (\<lambda>acc c. 10 * acc + digit_val c) 0 s"

text \<open>A property name is an array index when it is the canonical decimal of a natural.\<close>

definition parse_index :: "string \<Rightarrow> nat option" where
  "parse_index k =
     (if k \<noteq> [] \<and> list_all is_digit k \<and> (k = ''0'' \<or> hd k \<noteq> CHR ''0'')
      then Some (read_nat k) else None)"

subsection \<open>Property access and coercions\<close>

fun is_nullish :: "js \<Rightarrow> bool" where
  "is_nullish JUndef = True"
| "is_nullish JNull = True"
| "is_nullish _ = False"

text \<open>\<open>a ?? b\<close>\<close>

definition nullish :: "js \<Rightarrow> js \<Rightarrow> js" where
  "nullish a b = (if is_nullish a then b else a)"

text \<open>\<open>Boolean(v)\<close>, the test of \<open>if (v)\<close>, \<open>!v\<close>, \<open>a && b\<close> and \<open>a || b\<close>.\<close>

fun truthy :: "js \<Rightarrow> bool" where
  "truthy JUndef = False"
| "truthy JNull = False"
| "truthy (JBool b) = b"
| "truthy (JNum (Fin r)) = (r \<noteq> 0)"
| "truthy (JNum NaN) = False"
| "truthy (JNum _) = True"
| "truthy (JStr s) = (s \<noteq> [])"
| "truthy (JArr _) = True"
| "truthy (JObj _) = True"

text \<open>\<open>typeof v === 'object'\<close> (true of \<open>null\<close> too, which every caller excludes first).\<close>

fun typeof_object :: "js \<Rightarrow> bool" where
  "typeof_object JNull = True"
| "typeof_object (JArr _) = True"
| "typeof_object (JObj _) = True"
| "typeof_object _ = False"

text \<open>
  \<open>v[k]\<close> on a value that is neither \<open>null\<close> nor \<open>undefined\<close>: own properties only. The
  inherited properties of the built-in prototypes all have a lower-case letter in
  their name, so no upper-cased code names one, and of the fixed names that
  \<open>lib/api.ts\<close> reads only \<open>at\<close> is inherited (by strings and arrays; see the cache).
\<close>

fun get_prop :: "js \<Rightarrow> string \<Rightarrow> js" where
  "get_prop (JObj kvs) k = (case map_of kvs k of Some v \<Rightarrow> v | None \<Rightarrow> JUndef)"
| "get_prop (JArr xs) k =
     (case parse_index k of
        Some i \<Rightarrow> if i < length xs then xs ! i else JUndef
      | None \<Rightarrow> if k = ''length'' then JNum (Fin (of_nat (length xs))) else JUndef)"
| "get_prop (JStr s) k =
     (case parse_index k of
        Some i \<Rightarrow> if i < length s then JStr [s ! i] else JUndef
      | None \<Rightarrow> if k = ''length'' then JNum (Fin (of_nat (length s))) else JUndef)"
| "get_prop _ k = JUndef"

text \<open>\<open>v?.[k]\<close> and \<open>v?.k\<close>\<close>

definition opt_prop :: "js \<Rightarrow> string \<Rightarrow> js" where
  "opt_prop v k = (if is_nullish v then JUndef else get_prop v k)"

text \<open>\<open>Object.entries(v)\<close> and \<open>Object.keys(v)\<close> on a value that is not nullish.\<close>

fun Object_entries :: "js \<Rightarrow> (string \<times> js) list" where
  "Object_entries (JObj kvs) = kvs"
| "Object_entries (JArr xs) = zip (map show_nat [0 ..< length xs]) xs"
| "Object_entries (JStr s) = zip (map show_nat [0 ..< length s]) (map (\<lambda>c. JStr [c]) s)"
| "Object_entries _ = []"

definition Object_keys :: "js \<Rightarrow> string list" where
  "Object_keys v = map fst (Object_entries v)"

section \<open>The rate map normalizer: \<open>parseRates\<close>\<close>

definition add_rate :: "string \<times> js \<Rightarrow> (string \<times> number) list \<Rightarrow> (string \<times> number) list" where
  "add_rate e out =
     (case snd e of
        JNum n \<Rightarrow> if isFinite n then AList.update (toUpperCase (fst e)) n out else out
      | _ \<Rightarrow> out)"

text \<open>\<open>json?.rates ?? json?.response?.rates\<close>\<close>

definition rates_field :: "js \<Rightarrow> js" where
  "rates_field json =
     nullish (opt_prop json ''rates'') (opt_prop (opt_prop json ''response'') ''rates'')"

definition parseRates :: "js \<Rightarrow> (string \<times> number) list" where
  "parseRates json =
     (let rates = rates_field json
      in if \<not> truthy rates \<or> \<not> typeof_object rates then []
         else fold add_rate (Object_entries rates) [])"

text \<open>The data model's words for a rate: a positive finite number.\<close>

definition positive_finite :: "number \<Rightarrow> bool" where
  "positive_finite n = (case n of Fin r \<Rightarrow> 0 < r | _ \<Rightarrow> False)"

text \<open>
  \<open>rates[code]\<close> on the object \<open>parseRates\<close> built, for a \<open>code\<close> that went through
  \<open>toUpperCase\<close>: an own property, or \<open>undefined\<close> (\<open>None\<close>).
\<close>

definition rate_of :: "(string \<times> number) list \<Rightarrow> string \<Rightarrow> number option" where
  "rate_of rates code = map_of rates code"

section \<open>What the platform supplies\<close>

text \<open>
  The functions of the JavaScript platform that \<open>lib/api.ts\<close> calls and that are not
  modelled here are taken as parameters:
  \<^item> \<open>numToString\<close>: \<open>String(n)\<close> of a number;
  \<^item> \<open>strToNum\<close>: \<open>Number(s)\<close> of a string;
  \<^item> \<open>localeCompare\<close>: \<open>a.localeCompare(b)\<close>;
  \<^item> \<open>displayNames\<close>: \<open>None\<close> when \<open>new Intl.DisplayNames(['en'], {type: 'currency'})\<close>
    throws, otherwise its method \<open>of\<close>, which throws or returns a name or \<open>undefined\<close>;
  \<^item> \<open>Date_parse\<close>: the time value (milliseconds since the epoch, UTC) of
    \<open>new Date(s)\<close>, \<open>None\<close> for an invalid date;
  \<^item> \<open>LocalTZA\<close>: the offset of the local time zone in milliseconds, as ECMAScript
    defines it: \<open>LocalTZA t True\<close> at the UTC time \<open>t\<close>, \<open>LocalTZA t False\<close> at the
    local time \<open>t\<close>.
\<close>

record platform =
  numToString :: "number \<Rightarrow> string"
  strToNum :: "string \<Rightarrow> number"
  localeCompare :: "string \<Rightarrow> string \<Rightarrow> int"
  displayNames :: "(string \<Rightarrow> error + string option) option"
  Date_parse :: "string \<Rightarrow> int option"
  LocalTZA :: "int \<Rightarrow> bool \<Rightarrow> int"

subsection \<open>\<open>String(v)\<close> and \<open>Number(v)\<close>\<close>

text \<open>
  A parsed object has no callable property, so an object with an own property
  \<open>toString\<close> cannot be converted to a primitive: the conversion throws a TypeError.
  Every other object converts to \<open>[object Object]\<close>; an array joins its elements
  with commas, \<open>null\<close> and \<open>undefined\<close> elements giving the empty string.
\<close>

fun js_String :: "platform \<Rightarrow> js \<Rightarrow> error + string"
and js_join :: "platform \<Rightarrow> js list \<Rightarrow> error + string" where
  "js_String P JUndef = Inr ''undefined''"
| "js_String P JNull = Inr ''null''"
| "js_String P (JBool b) = Inr (if b then ''true'' else ''false'')"
| "js_String P (JNum n) = Inr (numToString P n)"
| "js_String P (JStr s) = Inr s"
| "js_String P (JArr xs) = js_join P xs"
| "js_String P (JObj kvs) =
     (if ''toString'' \<in> set (map fst kvs) then Inl TypeError else Inr ''[object Object]'')"
| "js_join P [] = Inr []"
| "js_join P [x] = (if is_nullish x then Inr [] else js_String P x)"
| "js_join P (x # y # ys) =
     (case (if is_nullish x then Inr [] else js_String P x) of
        Inl e \<Rightarrow> Inl e
      | Inr s \<Rightarrow> (case js_join P (y # ys) of
                   Inl e \<Rightarrow> Inl e
                 | Inr t \<Rightarrow> Inr (s @ '','' @ t)))"

fun js_Number :: "platform \<Rightarrow> js \<Rightarrow> error + number" where
  "js_Number P JUndef = Inr NaN"
| "js_Number P JNull = Inr (Fin 0)"
| "js_Number P (JBool b) = Inr (Fin (if b then 1 else 0))"
| "js_Number P (JNum n) = Inr n"
| "js_Number P (JStr s) = Inr (strToNum P s)"
| "js_Number P (JArr xs) =
     (case js_join P xs of Inl e \<Rightarrow> Inl e | Inr s \<Rightarrow> Inr (strToNum P s))"
| "js_Number P (JObj kvs) =
     (if ''toString'' \<in> set (map fst kvs) then Inl TypeError else Inr NaN)"

text \<open>\<open>/^[A-Z]{3,5}$/.test(v)\<close>: the argument is converted to a string first.\<close>

definition regex_test :: "platform \<Rightarrow> js \<Rightarrow> error + bool" where
  "regex_test P v = (case js_String P v of Inl e \<Rightarrow> Inl e | Inr s \<Rightarrow> Inr (code_pattern s))"

subsection \<open>Loops in which an iteration may throw\<close>

fun fold_err :: "('a \<Rightarrow> 's \<Rightarrow> error + 's) \<Rightarrow> 'a list \<Rightarrow> 's \<Rightarrow> error + 's" where
  "fold_err f [] s = Inr s"
| "fold_err f (x # xs) s = (case f x s of Inl e \<Rightarrow> Inl e | Inr s' \<Rightarrow> fold_err f xs s')"

fun map_err :: "('a \<Rightarrow> error + 'b) \<Rightarrow> 'a list \<Rightarrow> error + 'b list" where
  "map_err f [] = Inr []"
| "map_err f (x # xs) =
     (case f x of
        Inl e \<Rightarrow> Inl e
      | Inr y \<Rightarrow> (case map_err f xs of Inl e \<Rightarrow> Inl e | Inr ys \<Rightarrow> Inr (y # ys)))"

text \<open>\<open>xs.every(f)\<close> stops at the first element that fails.\<close>

fun every_err :: "('a \<Rightarrow> error + bool) \<Rightarrow> 'a list \<Rightarrow> error + bool" where
  "every_err f [] = Inr True"
| "every_err f (x # xs) =
     (case f x of
        Inl e \<Rightarrow> Inl e
      | Inr b \<Rightarrow> if b then every_err f xs else Inr False)"

subsection \<open>\<open>xs.sort(compare)\<close>\<close>

text \<open>
  \<open>Array.prototype.sort\<close> is stable. With a consistent comparator its result is the
  one stable sorted arrangement, which insertion from the right computes.
\<close>

fun insert_by :: "('a \<Rightarrow> 'a \<Rightarrow> int) \<Rightarrow> 'a \<Rightarrow> 'a list \<Rightarrow> 'a list" where
  "insert_by cmp x [] = [x]"
| "insert_by cmp x (y # ys) = (if cmp x y \<le> 0 then x # y # ys else y # insert_by cmp x ys)"

definition sort_by :: "('a \<Rightarrow> 'a \<Rightarrow> int) \<Rightarrow> 'a list \<Rightarrow> 'a list" where
  "sort_by cmp xs = foldr (insert_by cmp) xs []"

text \<open>The conditions ECMAScript puts on a consistent comparator.\<close>

definition consistent_comparator :: "('a \<Rightarrow> 'a \<Rightarrow> int) \<Rightarrow> bool" where
  "consistent_comparator cmp =
     ((\<forall>a b. (cmp a b < 0) = (0 < cmp b a))
      \<and> (\<forall>a b c. cmp a b \<le> 0 \<and> cmp b c \<le> 0 \<longrightarrow> cmp a c \<le> 0)
      \<and> (\<forall>a b c. cmp a b < 0 \<and> cmp b c \<le> 0 \<longrightarrow> cmp a c < 0)
      \<and> (\<forall>a b c. cmp a b \<le> 0 \<and> cmp b c < 0 \<longrightarrow> cmp a c < 0))"

text \<open>The order of \<open>xs.sort()\<close> without a comparator: strings by their code units.\<close>

fun str_lt :: "string \<Rightarrow> string \<Rightarrow> bool" where
  "str_lt [] [] = False"
| "str_lt [] (y # ys) = True"
| "str_lt (x # xs) [] = False"
| "str_lt (x # xs) (y # ys) =
     ((of_char x :: nat) < of_char y \<or> (x = y \<and> str_lt xs ys))"

definition code_unit_compare :: "string \<Rightarrow> string \<Rightarrow> int" where
  "code_unit_compare a b = (if str_lt a b then - 1 else if str_lt b a then 1 else 0)"

section \<open>The currency list normalizer: \<open>parseCurrenciesJSON\<close>\<close>

record currency =
  code :: string
  name :: string
  symbol :: js

datatype category = Fiat | Crypto

fun category_name :: "category \<Rightarrow> string" where
  "category_name Fiat = ''fiat''"
| "category_name Crypto = ''crypto''"

type_synonym currency_table = "(string \<times> currency) list"

definition normalizeCode :: "platform \<Rightarrow> js \<Rightarrow> error + string" where
  "normalizeCode P v =
     (case js_String P (nullish v (JStr [])) of
        Inl e \<Rightarrow> Inl e
      | Inr s \<Rightarrow> Inr (toUpperCase (trim s)))"

definition addCandidate ::
  "platform \<Rightarrow> js \<Rightarrow> js \<Rightarrow> js \<Rightarrow> currency_table \<Rightarrow> error + currency_table" where
  "addCandidate P codeRaw nameRaw symbolRaw currencyByCode =
     (case normalizeCode P codeRaw of
        Inl e \<Rightarrow> Inl e
      | Inr c \<Rightarrow>
          if \<not> code_pattern c then Inr currencyByCode
          else (case js_String P (nullish nameRaw (JStr c)) of
                  Inl e \<Rightarrow> Inl e
                | Inr n \<Rightarrow>
                    Inr (AList.update c \<lparr>code = c, name = n, symbol = symbolRaw\<rparr> currencyByCode)))"

text \<open>What every state of the table satisfies: one entry per code, each a valid code.\<close>

definition table_ok :: "currency_table \<Rightarrow> bool" where
  "table_ok t =
     (distinct (map fst t) \<and> list_all (\<lambda>e. code (snd e) = fst e \<and> code_pattern (fst e)) t)"

text \<open>\<open>v.short_code ?? v.code ?? v.iso_code ?? v.ticker ?? final\<close>\<close>

definition code_chain :: "js \<Rightarrow> js \<Rightarrow> js" where
  "code_chain v final =
     nullish (get_prop v ''short_code'')
       (nullish (get_prop v ''code'')
         (nullish (get_prop v ''iso_code'')
           (nullish (get_prop v ''ticker'') final)))"

text \<open>\<open>v.name ?? v.currency_name ?? v.fullName ?? v.currency ?? v.label ?? code\<close>\<close>

definition name_chain :: "js \<Rightarrow> js \<Rightarrow> js" where
  "name_chain v c =
     nullish (get_prop v ''name'')
       (nullish (get_prop v ''currency_name'')
         (nullish (get_prop v ''fullName'')
           (nullish (get_prop v ''currency'')
             (nullish (get_prop v ''label'') c))))"

text \<open>\<open>v.symbol ?? v.symbol_native ?? v.sign\<close>\<close>

definition symbol_chain :: "js \<Rightarrow> js" where
  "symbol_chain v =
     nullish (get_prop v ''symbol'') (nullish (get_prop v ''symbol_native'') (get_prop v ''sign''))"

text \<open>One element of a source that is an array.\<close>

definition add_item :: "platform \<Rightarrow> js \<Rightarrow> currency_table \<Rightarrow> error + currency_table" where
  "add_item P item currencyByCode =
     (let v = nullish item (JObj []);
          c = code_chain v (get_prop v ''currency'');
          n = name_chain v c;
          s = symbol_chain v
      in if truthy c \<and> truthy n then addCandidate P c n s currencyByCode
         else Inr currencyByCode)"

text \<open>One entry of a source that is an object map.\<close>

definition add_entry ::
  "platform \<Rightarrow> string \<times> js \<Rightarrow> currency_table \<Rightarrow> error + currency_table" where
  "add_entry P e currencyByCode =
     (case snd e of
        JStr str \<Rightarrow>
          if code_pattern (fst e) then addCandidate P (JStr (fst e)) (JStr str) JUndef currencyByCode
          else Inr currencyByCode
      | _ \<Rightarrow>
          (let v = nullish (snd e) (JObj []);
               c = code_chain v
                     (nullish (get_prop v ''currency'')
                        (if code_pattern (fst e) then JStr (fst e) else JUndef));
               n = name_chain v c;
               s = symbol_chain v
           in if truthy c \<and> truthy n then addCandidate P c n s currencyByCode
              else Inr currencyByCode))"

definition scan_source :: "platform \<Rightarrow> js \<Rightarrow> currency_table \<Rightarrow> error + currency_table" where
  "scan_source P source currencyByCode =
     (if \<not> truthy source \<or> \<not> typeof_object source then Inr currencyByCode
      else (case source of
              JArr items \<Rightarrow> fold_err (add_item P) items currencyByCode
            | _ \<Rightarrow> fold_err (add_entry P) (Object_entries source) currencyByCode))"

definition sources :: "js \<Rightarrow> category \<Rightarrow> js list" where
  "sources raw type =
     [ opt_prop (opt_prop raw ''response'') ''currencies'',
       opt_prop (opt_prop raw ''response'') (category_name type),
       opt_prop raw ''currencies'',
       opt_prop (opt_prop raw ''data'') ''currencies'',
       opt_prop (opt_prop raw ''data'') (category_name type),
       opt_prop raw ''response'',
       raw ]"

text \<open>\<open>(a, b) => a.name.localeCompare(b.name) || a.code.localeCompare(b.code)\<close>\<close>

definition compare_currency :: "platform \<Rightarrow> currency \<Rightarrow> currency \<Rightarrow> int" where
  "compare_currency P a b =
     (let c = localeCompare P (name a) (name b)
      in if c \<noteq> 0 then c else localeCompare P (code a) (code b))"

text \<open>
  \<open>Object.values(currencyByCode)\<close> lists the table in insertion order: its keys match
  the code pattern, so none is an array index.
\<close>

definition parseCurrenciesJSON :: "platform \<Rightarrow> js \<Rightarrow> category \<Rightarrow> error + currency list" where
  "parseCurrenciesJSON P raw type =
     (case fold_err (scan_source P) (sources raw type) [] of
        Inl e \<Rightarrow> Inl e
      | Inr currencyByCode \<Rightarrow> Inr (sort_by (compare_currency P) (map snd currencyByCode)))"

text \<open>
  The sentences of the specification on where a record's code comes from: the first
  non-empty of the five code fields, read here as the first that is not \<open>undefined\<close>,
  \<open>null\<close> or the empty string.
\<close>

definition code_fields :: "string list" where
  "code_fields = [''short_code'', ''code'', ''iso_code'', ''ticker'', ''currency'']"

fun is_empty_value :: "js \<Rightarrow> bool" where
  "is_empty_value JUndef = True"
| "is_empty_value JNull = True"
| "is_empty_value (JStr s) = (s = [])"
| "is_empty_value _ = False"

definition spec_first_nonempty_code :: "js \<Rightarrow> js" where
  "spec_first_nonempty_code v =
     (case find (\<lambda>f. \<not> is_empty_value (get_prop v f)) code_fields of
        Some f \<Rightarrow> get_prop v f
      | None \<Rightarrow> JUndef)"

text \<open>What the code does: the first of the five fields that is not \<open>undefined\<close> or \<open>null\<close>.\<close>

definition first_present_code :: "js \<Rightarrow> js option" where
  "first_present_code v =
     map_option (get_prop v) (find (\<lambda>f. \<not> is_nullish (get_prop v f)) code_fields)"


text \<open>
  A platform for concrete runs: numbers print and parse exactly on the naturals (and
  arbitrarily elsewhere), strings compare by code units, \<open>Intl.DisplayNames\<close> knows two
  codes and rejects a code that is not three letters long, no date parses and the time
  zone is UTC.
\<close>

definition sample_names :: "string \<Rightarrow> error + string option" where
  "sample_names c =
     (if length c \<noteq> 3 then Inl RangeError
      else if c = ''USD'' then Inr (Some ''US Dollar'')
      else if c = ''EUR'' then Inr (Some ''Euro'')
      else Inr (Some c))"

definition sample_numToString :: "number \<Rightarrow> string" where
  "sample_numToString n =
     (case n of
        Fin r \<Rightarrow> show_nat (nat \<lfloor>r\<rfloor>)
      | PosInf \<Rightarrow> ''Infinity''
      | NegInf \<Rightarrow> ''-Infinity''
      | NaN \<Rightarrow> ''NaN'')"

definition sample_strToNum :: "string \<Rightarrow> number" where
  "sample_strToNum s =
     (if trim s = [] then Fin 0
      else if list_all is_digit s then Fin (of_nat (read_nat s))
      else NaN)"

definition sample_platform :: platform where
  "sample_platform =
     \<lparr> numToString = sample_numToString,
       strToNum = sample_strToNum,
       localeCompare = code_unit_compare,
       displayNames = Some sample_names,
       Date_parse = (\<lambda>s. None),
       LocalTZA = (\<lambda>t isUTC. 0) \<rparr>"


section \<open>The transport and the store\<close>

text \<open>
  \<open>get(endpoint, params)\<close> is the one function that reaches the network. It is a
  parameter: a request is the endpoint and the parameters in the order given, the
  outcome is the parsed body or the error \<open>get\<close> throws.
\<close>

type_synonym request = "string \<times> (string \<times> js) list"

type_synonym transport = "request \<Rightarrow> error + js"

text \<open>
  \<open>localStorage\<close> holds text. \<open>storage key = Some v\<close> says that the item \<open>key\<close> is a
  non-empty text that \<open>JSON.parse\<close> turns into \<open>v\<close>; \<open>None\<close> stands for a missing item, an
  empty text and a text that does not parse: \<open>getCurrencies\<close> refetches in each case.
\<close>

type_synonym storage = "string \<Rightarrow> js option"

text \<open>
  \<open>JSON.parse(JSON.stringify(v))\<close>: a property whose value is \<open>undefined\<close> is left out,
  \<open>undefined\<close> in an array and a number that is not finite become \<open>null\<close>.
\<close>

fun json_image :: "js \<Rightarrow> js"
and json_elems :: "js list \<Rightarrow> js list"
and json_props :: "(string \<times> js) list \<Rightarrow> (string \<times> js) list" where
  "json_image (JNum n) = (if isFinite n then JNum n else JNull)"
| "json_image (JArr xs) = JArr (json_elems xs)"
| "json_image (JObj kvs) = JObj (json_props kvs)"
| "json_image JUndef = JUndef"
| "json_image JNull = JNull"
| "json_image (JBool b) = JBool b"
| "json_image (JStr s) = JStr s"
| "json_elems [] = []"
| "json_elems (x # xs) = (case x of JUndef \<Rightarrow> JNull | _ \<Rightarrow> json_image x) # json_elems xs"
| "json_props [] = []"
| "json_props (kv # kvs) =
     (case snd kv of
        JUndef \<Rightarrow> json_props kvs
      | _ \<Rightarrow> (fst kv, json_image (snd kv)) # json_props kvs)"

text \<open>
  Both calls on \<open>localStorage\<close> can throw: \<open>getItem\<close> when access to the store is denied,
  \<open>setItem\<close> also when the quota is exceeded, which depends on the key and on the text
  written. A store is its items and, for each call, the exception it throws if any.
  \<open>setItem(key, JSON.stringify(v))\<close> that returns leaves the item as \<open>JSON\<close> reads it back.
\<close>

record store =
  contents :: storage
  getItem_throws :: "string \<Rightarrow> error option"
  setItem_throws :: "string \<Rightarrow> js \<Rightarrow> error option"

definition getItem :: "store \<Rightarrow> string \<Rightarrow> error + js option" where
  "getItem S key =
     (case getItem_throws S key of
        Some e \<Rightarrow> Inl e
      | None \<Rightarrow> Inr (contents S key))"

definition setItem :: "store \<Rightarrow> string \<Rightarrow> js \<Rightarrow> error + store" where
  "setItem S key v =
     (case setItem_throws S key v of
        Some e \<Rightarrow> Inl e
      | None \<Rightarrow> Inr (S\<lparr>contents := (contents S)(key \<mapsto> json_image v)\<rparr>))"

definition try_catch :: "error + 'a \<Rightarrow> (error \<Rightarrow> error + 'a) \<Rightarrow> error + 'a" where
  "try_catch body handler = (case body of Inl e \<Rightarrow> handler e | Inr v \<Rightarrow> Inr v)"

section \<open>The currency cache: \<open>getCurrencies\<close>\<close>

definition ONE_DAY :: rat where
  "ONE_DAY = 86400000"

text \<open>A currency as the object \<open>{ code, name, symbol }\<close>.\<close>

definition currency_obj :: "currency \<Rightarrow> js" where
  "currency_obj c = JObj [(''code'', JStr (code c)), (''name'', JStr (name c)), (''symbol'', symbol c)]"

text \<open>
  \<open>currencyNames\<close>: \<open>displayNames.of\<close> is called for every currency, and one call that
  throws makes the function return its argument unchanged.
\<close>

definition hasMeaningfulName :: "currency \<Rightarrow> bool" where
  "hasMeaningfulName c = (name c \<noteq> [] \<and> toUpperCase (name c) \<noteq> code c)"

definition currencyNames :: "platform \<Rightarrow> currency list \<Rightarrow> currency list" where
  "currencyNames P currencies =
     (case displayNames P of
        None \<Rightarrow> currencies
      | Some of_code \<Rightarrow>
          (case map_err
                  (\<lambda>c. case of_code (code c) of
                         Inl e \<Rightarrow> Inl e
                       | Inr localizedName \<Rightarrow>
                           Inr (c\<lparr>name :=
                                  if hasMeaningfulName c then name c
                                  else (case localizedName of Some n \<Rightarrow> n | None \<Rightarrow> name c)\<rparr>))
                  currencies of
             Inl e \<Rightarrow> currencies
           | Inr named \<Rightarrow> named))"

text \<open>
  The body of the \<open>try\<close> around the cached entry. Destructuring \<open>null\<close> throws. Of a
  string or an array, \<open>at\<close> is an inherited method, whose number is \<open>NaN\<close> as is that of
  \<open>undefined\<close>, and \<open>items\<close> is \<open>undefined\<close>.
\<close>

definition cache_lookup :: "platform \<Rightarrow> int \<Rightarrow> js \<Rightarrow> error + js list option" where
  "cache_lookup P now parsed =
     (if is_nullish parsed then Inl TypeError
      else
        (let at_value = get_prop parsed ''at''; items = get_prop parsed ''items''
         in case js_Number P at_value of
              Inl e \<Rightarrow> Inl e
            | Inr a \<Rightarrow>
                (let fresh = num_lt (num_sub (Fin (of_int now)) a) (Fin ONE_DAY)
                 in case items of
                      JArr xs \<Rightarrow>
                        if 0 < length xs
                        then (case every_err (\<lambda>x. regex_test P (opt_prop x ''code'')) xs of
                                Inl e \<Rightarrow> Inl e
                              | Inr looksValid \<Rightarrow> Inr (if fresh \<and> looksValid then Some xs else None))
                        else Inr None
                    | _ \<Rightarrow> Inr None)))"

definition cached_items :: "platform \<Rightarrow> int \<Rightarrow> js option \<Rightarrow> js list option" where
  "cached_items P now cached =
     (case cached of
        None \<Rightarrow> None
      | Some parsed \<Rightarrow> (case cache_lookup P now parsed of Inl e \<Rightarrow> None | Inr r \<Rightarrow> r))"

definition cacheKey :: "category \<Rightarrow> string" where
  "cacheKey type = ''cb_currencies_v6_'' @ category_name type"

definition currencies_request :: "category \<Rightarrow> request" where
  "currencies_request type = (''currencies'', [(''type'', JStr (category_name type))])"

definition latest_all_request :: request where
  "latest_all_request = (''latest'', [])"

text \<open>The first \<open>try\<close>: the list stays empty when the fetch or the normalizer throws.\<close>

definition primary_list :: "platform \<Rightarrow> transport \<Rightarrow> category \<Rightarrow> error + currency list" where
  "primary_list P get type =
     try_catch
       (case get (currencies_request type) of
          Inl e \<Rightarrow> Inl e
        | Inr raw \<Rightarrow> parseCurrenciesJSON P raw type)
       (\<lambda>e. Inr [])"

text \<open>
  The codes from \<open>/latest\<close>. \<open>Object.keys(rates)\<close> lists array-index keys first; the
  filter removes them, so the codes that remain are in the order of \<open>parseRates\<close>.
\<close>

definition codes_from_latest :: "js \<Rightarrow> currency list" where
  "codes_from_latest latest =
     map (\<lambda>c. \<lparr>code = c, name = c, symbol = JUndef\<rparr>)
       (filter code_pattern (uniq (''USD'' # map fst (parseRates latest))))"

text \<open>The second \<open>try\<close>: the list is kept when the fetch throws.\<close>

definition fallback_list :: "transport \<Rightarrow> currency list \<Rightarrow> error + currency list" where
  "fallback_list get list =
     try_catch
       (case get latest_all_request of
          Inl e \<Rightarrow> Inl e
        | Inr latest \<Rightarrow> Inr (codes_from_latest latest))
       (\<lambda>e. Inr list)"

text \<open>
  A call that returns: the list, the requests made and the store it leaves.
\<close>

record currencies_run =
  returned :: "js list"
  requests :: "request list"
  stored :: store

text \<open>The object \<open>{ at: Date.now(), items: list }\<close>.\<close>

definition cache_entry :: "int \<Rightarrow> js list \<Rightarrow> js" where
  "cache_entry now items = JObj [(''at'', JNum (Fin (of_int now))), (''items'', JArr items)]"

text \<open>
  \<open>now0\<close> is \<open>Date.now()\<close> where the cached entry is checked, \<open>now1\<close> where the fetched
  list is stored. Neither call on \<open>localStorage\<close> is inside a \<open>try\<close>: what \<open>getItem\<close>
  throws ends the call before any request, what \<open>setItem\<close> throws ends it after the
  requests, and the list is not returned.
\<close>

definition fetch_currencies ::
  "platform \<Rightarrow> transport \<Rightarrow> store \<Rightarrow> int \<Rightarrow> category \<Rightarrow> error + currencies_run" where
  "fetch_currencies P get S now1 type =
     (case primary_list P get type of
        Inl e \<Rightarrow> Inl e
      | Inr list0 \<Rightarrow>
          (case (if length list0 < 5 then fallback_list get list0 else Inr list0) of
             Inl e \<Rightarrow> Inl e
           | Inr list1 \<Rightarrow>
               (let list = sort_by (compare_currency P) (currencyNames P list1);
                    items = map currency_obj list
                in case setItem S (cacheKey type) (cache_entry now1 items) of
                     Inl e \<Rightarrow> Inl e
                   | Inr S' \<Rightarrow>
                       Inr \<lparr> returned = items,
                              requests = (if length list0 < 5
                                          then [currencies_request type, latest_all_request]
                                          else [currencies_request type]),
                              stored = S' \<rparr>)))"

definition getCurrencies ::
  "platform \<Rightarrow> transport \<Rightarrow> store \<Rightarrow> int \<Rightarrow> int \<Rightarrow> category \<Rightarrow> error + currencies_run" where
  "getCurrencies P get S now0 now1 type =
     (case getItem S (cacheKey type) of
        Inl e \<Rightarrow> Inl e
      | Inr cached \<Rightarrow>
          (case cached_items P now0 cached of
             Some items \<Rightarrow> Inr \<lparr> returned = items, requests = [], stored = S \<rparr>
           | None \<Rightarrow> fetch_currencies P get S now1 type))"

text \<open>
  The words of the specification for a usable entry: present, fresh (age under 24
  hours) and every item's code matching the code pattern.
\<close>

definition spec_entry_usable :: "platform \<Rightarrow> int \<Rightarrow> js option \<Rightarrow> bool" where
  "spec_entry_usable P now cached =
     (case cached of
        None \<Rightarrow> False
      | Some parsed \<Rightarrow>
          (case (get_prop parsed ''at'', get_prop parsed ''items'') of
             (JNum (Fin a), JArr xs) \<Rightarrow>
               of_int now - a < ONE_DAY
               \<and> list_all (\<lambda>x. regex_test P (opt_prop x ''code'') = Inr True) xs
           | _ \<Rightarrow> False))"

text \<open>
  Stores for concrete runs: one that never throws, one whose every access is denied,
  and an empty one that can be read and refuses every write.
\<close>

definition working_store :: "storage \<Rightarrow> store" where
  "working_store items =
     \<lparr> contents = items, getItem_throws = (\<lambda>key. None), setItem_throws = (\<lambda>key v. None) \<rparr>"



text \<open>A transport for concrete runs, and one that fails on every request.\<close>

definition transport_down :: transport where
  "transport_down req = Inl TransportError"

definition small_payload :: js where
  "small_payload =
     JObj [(''response'',
            JArr [ JObj [(''short_code'', JStr ''USD''), (''name'', JStr ''US Dollar'')],
                   JObj [(''short_code'', JStr ''EUR''), (''name'', JStr ''EUR'')] ])]"

definition small_list_transport :: transport where
  "small_list_transport req =
     (if fst req = ''currencies'' then Inr small_payload else Inl TransportError)"

text \<open>
  What the code requires of a cached entry before it returns its items \<open>xs\<close>: the
  entry is present, its age is under 24 hours, \<open>items\<close> is a non-empty array and every
  item's code matches the code pattern.
\<close>

definition entry_usable :: "platform \<Rightarrow> int \<Rightarrow> js option \<Rightarrow> js list \<Rightarrow> bool" where
  "entry_usable P now cached xs =
     (case cached of
        None \<Rightarrow> False
      | Some parsed \<Rightarrow>
          \<not> is_nullish parsed
          \<and> get_prop parsed ''items'' = JArr xs
          \<and> xs \<noteq> []
          \<and> (case js_Number P (get_prop parsed ''at'') of
                Inl e \<Rightarrow> False
              | Inr a \<Rightarrow> num_lt (num_sub (Fin (of_int now)) a) (Fin ONE_DAY))
          \<and> list_all (\<lambda>x. regex_test P (opt_prop x ''code'') = Inr True) xs)"

text \<open>An entry holding an empty list, written at time 1000.\<close>

definition empty_entry :: js where
  "empty_entry = JObj [(''at'', JNum (Fin 1000)), (''items'', JArr [])]"

section \<open>The conversion engine: \<open>convertViaUSD\<close> and \<open>convertOnce\<close>\<close>

text \<open>\<open>ConvertResponse\<close>: \<open>rate = None\<close> is \<open>rate: undefined\<close>.\<close>

record convert_response =
  result :: number
  rate :: "number option"
  meta :: js

text \<open>The symbols \<open>convertViaUSD\<close> asks for: each side that is not USD, once.\<close>

definition symbolsNeeded :: "string \<Rightarrow> string \<Rightarrow> string list" where
  "symbolsNeeded from to =
     (if from \<noteq> ''USD'' then [from] else []) @ (if to \<noteq> ''USD'' then [to] else [])"

definition latest_request :: "string \<Rightarrow> string \<Rightarrow> request" where
  "latest_request from to =
     (let symbols = join '','' (uniq (symbolsNeeded from to))
      in (''latest'', if symbols \<noteq> [] then [(''symbols'', JStr symbols)] else []))"

text \<open>\<open>side === 'USD' ? 1 : rates[side]\<close>; \<open>None\<close> is \<open>undefined\<close>.\<close>

definition usd_rate :: "(string \<times> number) list \<Rightarrow> string \<Rightarrow> number option" where
  "usd_rate rates side = (if side = ''USD'' then Some (Fin 1) else rate_of rates side)"

definition fallback_meta :: "(string \<times> number) list \<Rightarrow> js" where
  "fallback_meta rates =
     JObj [(''fallback'', JBool True), (''base'', JStr ''USD''),
           (''rates'', JObj (map (\<lambda>kv. (fst kv, JNum (snd kv))) rates))]"

definition convertViaUSD ::
  "transport \<Rightarrow> string \<Rightarrow> string \<Rightarrow> number \<Rightarrow> error + convert_response" where
  "convertViaUSD get from to amount =
     (case get (latest_request from to) of
        Inl e \<Rightarrow> Inl e
      | Inr latest \<Rightarrow>
          (let rates = parseRates latest
           in case (usd_rate rates from, usd_rate rates to) of
                (Some fromRateUSD, Some toRateUSD) \<Rightarrow>
                  (let perUnitRate = num_div toRateUSD fromRateUSD
                   in Inr \<lparr> result = num_mul amount perUnitRate,
                            rate = Some perUnitRate,
                            meta = fallback_meta rates \<rparr>)
              | _ \<Rightarrow> Inl FallbackUnavailable))"

text \<open>
  \<open>json?.result ?? json?.response?.value ?? json?.response?.result ?? json?.data?.result
  ?? json?.value\<close>
\<close>

definition convert_result_field :: "js \<Rightarrow> js" where
  "convert_result_field json =
     nullish (opt_prop json ''result'')
       (nullish (opt_prop (opt_prop json ''response'') ''value'')
         (nullish (opt_prop (opt_prop json ''response'') ''result'')
           (nullish (opt_prop (opt_prop json ''data'') ''result'')
             (opt_prop json ''value''))))"

definition convert_request :: "string \<Rightarrow> string \<Rightarrow> number \<Rightarrow> request" where
  "convert_request from to amount =
     (''convert'', [(''from'', JStr from), (''to'', JStr to), (''amount'', JNum amount)])"

text \<open>The body of the \<open>try\<close> in \<open>convertOnce\<close>.\<close>

definition convert_primary ::
  "platform \<Rightarrow> transport \<Rightarrow> string \<Rightarrow> string \<Rightarrow> number \<Rightarrow> error + convert_response" where
  "convert_primary P get from to amount =
     (case get (convert_request from to amount) of
        Inl e \<Rightarrow> Inl e
      | Inr json \<Rightarrow>
          (case js_Number P (convert_result_field json) of
             Inl e \<Rightarrow> Inl e
           | Inr res \<Rightarrow>
               if isFinite res
               then Inr \<lparr> result = res,
                         rate = (if truthy (JNum amount) then Some (num_div res amount) else None),
                         meta = json \<rparr>
               else Inl UnexpectedShape))"

text \<open>
  \<open>params\<close> has the types of its declaration: two strings and a number.
  \<open>String(s || '')\<close> of a string is the string; \<open>Number(n) || 0\<close> of a number is the
  number, or 0 when it is 0 or \<open>NaN\<close>.
\<close>

definition normalize_amount :: "number \<Rightarrow> number" where
  "normalize_amount n = (if truthy (JNum n) then n else Fin 0)"

definition convertOnce ::
  "platform \<Rightarrow> transport \<Rightarrow> string \<Rightarrow> string \<Rightarrow> number \<Rightarrow> error + convert_response" where
  "convertOnce P get params_from params_to params_amount =
     (let from = toUpperCase (trim params_from);
          to = toUpperCase (trim params_to);
          amount = normalize_amount params_amount
      in try_catch (convert_primary P get from to amount)
           (\<lambda>e. convertViaUSD get from to amount))"

text \<open>
  The words of the specification for the fallback: each side's USD rate is 1 when the
  side is USD and the entry of the rate map otherwise; it fails only when a required
  rate is missing.
\<close>

definition spec_cross_rate ::
  "(string \<times> number) list \<Rightarrow> string \<Rightarrow> string \<Rightarrow> number \<Rightarrow> error + convert_response" where
  "spec_cross_rate rates from to amount =
     (if (from \<noteq> ''USD'' \<and> map_of rates from = None) \<or> (to \<noteq> ''USD'' \<and> map_of rates to = None)
      then Inl FallbackUnavailable
      else (let fromRateUSD = (if from = ''USD'' then Fin 1 else the (map_of rates from));
                toRateUSD = (if to = ''USD'' then Fin 1 else the (map_of rates to))
            in Inr \<lparr> result = num_mul amount (num_div toRateUSD fromRateUSD),
                     rate = Some (num_div toRateUSD fromRateUSD),
                     meta = fallback_meta rates \<rparr>))"

text \<open>Transports for concrete runs: \<open>/convert\<close> is down and \<open>/latest\<close> answers.\<close>

definition latest_payload :: js where
  "latest_payload =
     JObj [(''rates'', JObj [(''EUR'', JNum (Fin (9 / 10))), (''GBP'', JNum (Fin (3 / 4)))])]"

definition latest_only_transport :: transport where
  "latest_only_transport req =
     (if fst req = ''latest'' then Inr latest_payload else Inl TransportError)"

definition convert_payload :: js where
  "convert_payload = JObj [(''response'', JObj [(''value'', JNum (Fin 0))])]"

definition convert_ok_transport :: transport where
  "convert_ok_transport req =
     (if fst req = ''convert'' then Inr convert_payload else Inl TransportError)"

text \<open>The \<open>/convert\<close> call fails, or the number it yields is not finite.\<close>

definition primary_failed ::
  "platform \<Rightarrow> transport \<Rightarrow> string \<Rightarrow> string \<Rightarrow> number \<Rightarrow> bool" where
  "primary_failed P get from to amount =
     (case get (convert_request from to amount) of
        Inl e \<Rightarrow> True
      | Inr json \<Rightarrow>
          (case js_Number P (convert_result_field json) of
             Inl e \<Rightarrow> True
           | Inr res \<Rightarrow> \<not> isFinite res))"

section \<open>The timeseries engine: \<open>getTimeseries\<close>\<close>

text \<open>\<open>TimeseriesPoint\<close>: \<open>{ date, rate }\<close>.\<close>

record point =
  point_date :: string
  point_rate :: number

subsection \<open>The batch path\<close>

text \<open>\<open>json?.rates ?? json?.data?.rates ?? json?.response?.rates ?? {}\<close>\<close>

definition buckets_field :: "js \<Rightarrow> js" where
  "buckets_field json =
     nullish (opt_prop json ''rates'')
       (nullish (opt_prop (opt_prop json ''data'') ''rates'')
         (nullish (opt_prop (opt_prop json ''response'') ''rates'') (JObj [])))"

text \<open>\<open>side === 'USD' ? 1 : day[side]\<close>\<close>

definition side_rate :: "js \<Rightarrow> string \<Rightarrow> js" where
  "side_rate day side = (if side = ''USD'' then JNum (Fin 1) else get_prop day side)"

text \<open>The point of one date, when both rates are numbers.\<close>

definition day_point :: "string \<Rightarrow> string \<Rightarrow> js \<Rightarrow> string \<Rightarrow> point option" where
  "day_point from to buckets d =
     (let day0 = get_prop buckets d;
          day = (if truthy day0 then day0 else JObj [])
      in case side_rate day from of
           JNum rFrom \<Rightarrow>
             (case side_rate day to of
                JNum rTo \<Rightarrow> Some \<lparr>point_date = d, point_rate = num_div rTo rFrom\<rparr>
              | _ \<Rightarrow> None)
         | _ \<Rightarrow> None)"

definition batch_series :: "string \<Rightarrow> string \<Rightarrow> js \<Rightarrow> point list" where
  "batch_series from to json =
     (let buckets = buckets_field json;
          dates = sort_by code_unit_compare (Object_keys buckets)
      in List.map_filter (day_point from to buckets) dates)"

definition timeseries_request :: "string \<Rightarrow> string \<Rightarrow> string \<Rightarrow> string \<Rightarrow> request" where
  "timeseries_request from to start end =
     (''timeseries'', [(''base'', JStr ''USD''), (''start_date'', JStr start),
                       (''end_date'', JStr end), (''symbols'', JStr (from @ '','' @ to))])"

subsection \<open>The days of the per-day path\<close>

definition msPerDay :: int where
  "msPerDay = 86400000"

text \<open>The civil date (year, month, day) of a day number counted from 1970-01-01.\<close>

definition civil_from_days :: "int \<Rightarrow> int \<times> int \<times> int" where
  "civil_from_days z0 =
     (let z = z0 + 719468;
          era = z div 146097;
          doe = z - era * 146097;
          yoe = (doe - doe div 1460 + doe div 36524 - doe div 146096) div 365;
          y = yoe + era * 400;
          doy = doe - (365 * yoe + yoe div 4 - yoe div 100);
          mp = (5 * doy + 2) div 153;
          d = doy - (153 * mp + 2) div 5 + 1;
          m = (if mp < 10 then mp + 3 else mp - 9)
      in (if m \<le> 2 then y + 1 else y, m, d))"

definition days_from_civil :: "int \<Rightarrow> int \<Rightarrow> int \<Rightarrow> int" where
  "days_from_civil y0 m d =
     (let y = (if m \<le> 2 then y0 - 1 else y0);
          era = y div 400;
          yoe = y - era * 400;
          doy = (153 * (if 2 < m then m - 3 else m + 9) + 2) div 5 + d - 1;
          doe = yoe * 365 + yoe div 4 - yoe div 100 + doy
      in era * 146097 + doe - 719468)"

definition pad :: "nat \<Rightarrow> nat \<Rightarrow> string" where
  "pad width n = replicate (width - length (show_nat n)) CHR ''0'' @ show_nat n"

text \<open>
  \<open>d.toISOString().slice(0, 10)\<close>: the UTC date of a time value. A year outside
  0..9999 is printed with a sign and six digits, of which the slice keeps the month.
\<close>

definition toISOString10 :: "int \<Rightarrow> string" where
  "toISOString10 t =
     (case civil_from_days (t div msPerDay) of
        (y, m, d) \<Rightarrow>
          take 10
            ((if 0 \<le> y \<and> y \<le> 9999 then pad 4 (nat y)
              else (if y < 0 then ''-'' else ''+'') @ pad 6 (nat \<bar>y\<bar>))
             @ ''-'' @ pad 2 (nat m) @ ''-'' @ pad 2 (nat d)))"

text \<open>
  \<open>d.setDate(d.getDate() + 1)\<close>: one day is added to the local time of \<open>d\<close>, and the
  result is taken back to UTC and clipped to the range of time values.
\<close>

definition setDate_next :: "platform \<Rightarrow> int \<Rightarrow> int option" where
  "setDate_next P t =
     (let local = t + LocalTZA P t True;
          newDate = local + msPerDay;
          u = newDate - LocalTZA P newDate False
      in if \<bar>u\<bar> \<le> 8640000000000000 then Some u else None)"

text \<open>
  \<open>for (let d = new Date(start); d <= end; d.setDate(d.getDate() + 1))\<close> with its
  \<open>days.push\<close>. The loop has no bound of its own: a result \<open>None\<close> says it never ends.
\<close>

partial_function (option) days_loop :: "platform \<Rightarrow> int \<Rightarrow> int \<Rightarrow> string list option" where
  "days_loop P d e =
     (if d \<le> e
      then (case setDate_next P d of
              None \<Rightarrow> Some [toISOString10 d]
            | Some d' \<Rightarrow> Option.bind (days_loop P d' e) (\<lambda>days. Some (toISOString10 d # days)))
      else Some [])"

declare days_loop.simps [code]

text \<open>An invalid date compares false with every date: the loop body never runs.\<close>

definition enumerate_days :: "platform \<Rightarrow> string \<Rightarrow> string \<Rightarrow> string list option" where
  "enumerate_days P start end =
     (case Date_parse P start of
        None \<Rightarrow> Some []
      | Some s \<Rightarrow> (case Date_parse P end of None \<Rightarrow> Some [] | Some e \<Rightarrow> days_loop P s e))"

subsection \<open>The per-day path and \<open>getTimeseries\<close>\<close>

definition historical_request :: "string \<Rightarrow> string \<Rightarrow> string \<Rightarrow> request" where
  "historical_request from to day =
     (''historical'', [(''base'', JStr ''USD''), (''date'', JStr day),
                       (''symbols'', JStr (from @ '','' @ to))])"

text \<open>One day of the per-day path: the \<open>try\<close> skips the day on any error.\<close>

definition historical_point :: "transport \<Rightarrow> string \<Rightarrow> string \<Rightarrow> string \<Rightarrow> point option" where
  "historical_point get from to day =
     (case get (historical_request from to day) of
        Inl e \<Rightarrow> None
      | Inr json \<Rightarrow>
          (let rates = parseRates json
           in case (usd_rate rates from, usd_rate rates to) of
                (Some rFrom, Some rTo) \<Rightarrow> Some \<lparr>point_date = day, point_rate = num_div rTo rFrom\<rparr>
              | _ \<Rightarrow> None))"

text \<open>\<open>(a, b) => a.date.localeCompare(b.date)\<close>\<close>

definition compare_date :: "platform \<Rightarrow> point \<Rightarrow> point \<Rightarrow> int" where
  "compare_date P a b = localeCompare P (point_date a) (point_date b)"

text \<open>\<open>None\<close>: \<open>getTimeseries\<close> does not return.\<close>

definition getTimeseries ::
  "platform \<Rightarrow> transport \<Rightarrow> string \<Rightarrow> string \<Rightarrow> string \<Rightarrow> string \<Rightarrow> point list option" where
  "getTimeseries P get params_from params_to start end =
     (let from = toUpperCase (trim params_from);
          to = toUpperCase (trim params_to);
          series = (case get (timeseries_request from to start end) of
                      Inl e \<Rightarrow> []
                    | Inr json \<Rightarrow> batch_series from to json)
      in if series \<noteq> [] then Some series
         else map_option
                (\<lambda>days. sort_by (compare_date P) (List.map_filter (historical_point get from to) days))
                (enumerate_days P start end))"

subsection \<open>A platform in Central European Time\<close>

text \<open>\<open>new Date(s)\<close> of a date-only string \<open>YYYY-MM-DD\<close>: midnight UTC of that date.\<close>

definition iso_date_parse :: "string \<Rightarrow> int option" where
  "iso_date_parse s =
     (if length s = 10 \<and> s ! 4 = CHR ''-'' \<and> s ! 7 = CHR ''-''
         \<and> list_all is_digit (take 4 s @ take 2 (drop 5 s) @ drop 8 s)
      then (let y = read_nat (take 4 s); m = read_nat (take 2 (drop 5 s)); d = read_nat (drop 8 s)
            in if 1 \<le> m \<and> m \<le> 12 \<and> 1 \<le> d \<and> d \<le> 31
               then Some (days_from_civil (int y) (int m) (int d) * msPerDay)
               else None)
      else None)"

text \<open>
  The offset of Europe/Berlin around the start of summer time on 2024-03-31, when
  02:00 local time became 03:00: one hour before 01:00 UTC (1711846800000), two hours
  from then on; a local time is read with the offset of before the change up to the
  end of the skipped hour (03:00 local, 1711854000000 as a local time value).
\<close>

definition cet_tza :: "int \<Rightarrow> bool \<Rightarrow> int" where
  "cet_tza t isUTC =
     (if isUTC then (if t < 1711846800000 then 3600000 else 7200000)
      else (if t < 1711854000000 then 3600000 else 7200000))"

definition cet_platform :: platform where
  "cet_platform = sample_platform \<lparr> Date_parse := iso_date_parse, LocalTZA := cet_tza \<rparr>"

definition utc_platform :: platform where
  "utc_platform = sample_platform \<lparr> Date_parse := iso_date_parse \<rparr>"

text \<open>\<open>/timeseries\<close> is down and \<open>/historical\<close> answers every day with the same rates.\<close>

definition historical_transport :: transport where
  "historical_transport req =
     (if fst req = ''historical'' then Inr latest_payload else Inl TransportError)"

text \<open>A batch payload of two dates, the later of which lacks GBP.\<close>

definition two_day_payload :: js where
  "two_day_payload =
     JObj [(''rates'',
            JObj [ (''2024-01-02'', JObj [(''EUR'', JNum (Fin (9 / 10)))]),
                   (''2024-01-01'', JObj [(''EUR'', JNum (Fin (9 / 10))),
                                          (''GBP'', JNum (Fin (3 / 4)))]) ])]"

definition batch_transport :: transport where
  "batch_transport req =
     (if fst req = ''timeseries'' then Inr two_day_payload else Inl TransportError)"

section \<open>Properties of the rate map normalizer\<close>

lemma set_update_cases:
  "e \<in> set (AList.update k v al) \<Longrightarrow> e = (k, v) \<or> e \<in> set al"
  by (induction al) (auto split: if_splits)

lemma add_rate_origin:
  assumes "e \<in> set (add_rate x out)"
  shows "e \<in> set out \<or> (snd x = JNum (snd e) \<and> isFinite (snd e) \<and> fst e = toUpperCase (fst x))"
  using assms by (auto simp: add_rate_def split: js.splits if_splits dest: set_update_cases)

lemma fold_add_rate_origin:
  "e \<in> set (fold add_rate es out) \<Longrightarrow>
     e \<in> set out \<or>
     (\<exists>x \<in> set es. snd x = JNum (snd e) \<and> isFinite (snd e) \<and> fst e = toUpperCase (fst x))"
proof (induction es arbitrary: out)
  case Nil
  then show ?case by simp
next
  case (Cons x es)
  from Cons.IH [OF Cons.prems [simplified]] show ?case
    using add_rate_origin [of e x out] by auto
qed

lemma distinct_add_rate: "distinct (map fst out) \<Longrightarrow> distinct (map fst (add_rate x out))"
  by (auto simp: add_rate_def distinct_update split: js.splits)

lemma distinct_fold_add_rate:
  "distinct (map fst out) \<Longrightarrow> distinct (map fst (fold add_rate es out))"
  by (induction es arbitrary: out) (auto simp: distinct_add_rate)

lemma parseRates_entries:
  "e \<in> set (parseRates json) \<Longrightarrow>
     isFinite (snd e) \<and>
     (\<exists>x \<in> set (Object_entries (rates_field json)). snd x = JNum (snd e) \<and> fst e = toUpperCase (fst x))"
  by (auto simp: parseRates_def Let_def split: if_splits dest!: fold_add_rate_origin)

lemma distinct_parseRates: "distinct (map fst (parseRates json))"
  by (simp add: parseRates_def Let_def distinct_fold_add_rate)

text \<open>
  C9, as the specification states it, fails: \<open>parseRates\<close> keeps every finite number, so the
  payload \<open>{"rates": {"EUR": -1}}\<close> yields a rate that is not positive.
\<close>

theorem parseRates_positive_counterexample:
  "\<not> list_all (\<lambda>e. positive_finite (snd e))
        (parseRates (JObj [(''rates'', JObj [(''EUR'', JNum (Fin (- 1)))])]))"
  by (simp add: parseRates_def rates_field_def nullish_def opt_prop_def add_rate_def
      toUpperCase_def upper_char_def is_lower_def positive_finite_def)

text \<open>
  C9, amended: every value of the map \<open>parseRates\<close> returns is a finite number (of any
  sign), each entry is an entry of the rates object whose value is that number, stored
  under the upper-cased key, no key occurs twice, and the map is empty when neither
  \<open>rates\<close> nor \<open>response.rates\<close> is present. \<open>parseRates\<close> is total: it never fails.
\<close>

theorem parseRates_finite_uppercased:
  "list_all (\<lambda>e. isFinite (snd e)) (parseRates json)
   \<and> (\<forall>e \<in> set (parseRates json). \<exists>x \<in> set (Object_entries (rates_field json)).
         snd x = JNum (snd e) \<and> fst e = toUpperCase (fst x))
   \<and> distinct (map fst (parseRates json))
   \<and> (is_nullish (opt_prop json ''rates'')
        \<and> is_nullish (opt_prop (opt_prop json ''response'') ''rates'')
        \<longrightarrow> parseRates json = [])"
proof -
  have "is_nullish (opt_prop json ''rates'')
        \<and> is_nullish (opt_prop (opt_prop json ''response'') ''rates'')
        \<longrightarrow> parseRates json = []"
    by (cases "opt_prop (opt_prop json ''response'') ''rates''")
       (auto simp: parseRates_def rates_field_def nullish_def)
  with parseRates_entries [of _ json] distinct_parseRates [of json]
  show ?thesis by (auto simp: list_all_iff)
qed

theorem parseRates_finite_uppercased_witness:
  "parseRates (JObj [(''response'', JObj [(''rates'',
       JObj [(''eur'', JNum (Fin (91 / 100))), (''jpy'', JNum PosInf), (''gbp'', JStr ''x'')])])])
     = [(''EUR'', Fin (91 / 100))]
   \<and> is_nullish (opt_prop (JObj [(''rates'', JNull)]) ''rates'')
   \<and> parseRates (JObj [(''rates'', JNull)]) = []"
  using parseRates_finite_uppercased [of "JObj [(''rates'', JNull)]"]
    parseRates_finite_uppercased [of "JObj [(''response'', JObj [(''rates'',
       JObj [(''eur'', JNum (Fin (91 / 100))), (''jpy'', JNum PosInf), (''gbp'', JStr ''x'')])])]"]
  by (simp add: parseRates_def rates_field_def nullish_def opt_prop_def add_rate_def
      toUpperCase_def upper_char_def is_lower_def)

section \<open>Properties of the currency list normalizer\<close>

lemma fold_err_invariant:
  assumes step: "\<And>x s s'. I s \<Longrightarrow> f x s = Inr s' \<Longrightarrow> I s'"
  shows "I s \<Longrightarrow> fold_err f xs s = Inr s' \<Longrightarrow> I s'"
proof (induction xs arbitrary: s)
  case Nil
  then show ?case by simp
next
  case (Cons x xs)
  then show ?case by (auto split: sum.splits dest: step)
qed

lemma table_ok_update:
  "table_ok t \<Longrightarrow> code_pattern c \<Longrightarrow> table_ok (AList.update c \<lparr>code = c, name = n, symbol = s\<rparr> t)"
  unfolding table_ok_def list_all_iff by (auto simp: distinct_update dest!: set_update_cases)

lemma addCandidate_ok:
  "table_ok t \<Longrightarrow> addCandidate P c n s t = Inr t' \<Longrightarrow> table_ok t'"
  by (auto simp: addCandidate_def table_ok_update split: sum.splits if_splits)

lemma add_item_ok: "table_ok t \<Longrightarrow> add_item P x t = Inr t' \<Longrightarrow> table_ok t'"
  by (auto simp: add_item_def Let_def split: if_splits dest: addCandidate_ok)

lemma add_entry_ok: "table_ok t \<Longrightarrow> add_entry P e t = Inr t' \<Longrightarrow> table_ok t'"
  by (auto simp: add_entry_def Let_def split: if_splits js.splits dest: addCandidate_ok)

lemma scan_source_ok: "table_ok t \<Longrightarrow> scan_source P src t = Inr t' \<Longrightarrow> table_ok t'"
  unfolding scan_source_def
  by (auto split: if_splits js.splits
      elim: fold_err_invariant [where I = table_ok, rotated 1] add_item_ok add_entry_ok)

lemma set_insert_by [simp]: "set (insert_by cmp x xs) = insert x (set xs)"
  by (induction xs) auto

lemma set_sort_by [simp]: "set (sort_by cmp xs) = set xs"
  by (induction xs) (auto simp: sort_by_def)

lemma distinct_map_insert_by:
  "distinct (map f (insert_by cmp x xs)) = (f x \<notin> f ` set xs \<and> distinct (map f xs))"
  by (induction xs) auto

lemma distinct_map_sort_by: "distinct (map f (sort_by cmp xs)) = distinct (map f xs)"
proof (induction xs)
  case Nil
  show ?case by (simp add: sort_by_def)
next
  case (Cons x xs)
  have "sort_by cmp (x # xs) = insert_by cmp x (sort_by cmp xs)" by (simp add: sort_by_def)
  with Cons show ?case by (simp add: distinct_map_insert_by)
qed

lemma comparator_total: "consistent_comparator cmp \<Longrightarrow> cmp a b \<le> 0 \<or> cmp b a \<le> 0"
  unfolding consistent_comparator_def by (metis linorder_not_le order_less_imp_le)

lemma comparator_trans:
  "consistent_comparator cmp \<Longrightarrow> cmp a b \<le> 0 \<Longrightarrow> cmp b c \<le> 0 \<Longrightarrow> cmp a c \<le> 0"
  unfolding consistent_comparator_def by blast

lemma sorted_insert_by:
  assumes "consistent_comparator cmp" "sorted_wrt (\<lambda>a b. cmp a b \<le> 0) xs"
  shows "sorted_wrt (\<lambda>a b. cmp a b \<le> 0) (insert_by cmp x xs)"
  using assms(2)
proof (induction xs)
  case Nil
  then show ?case by simp
next
  case (Cons y ys)
  show ?case
  proof (cases "cmp x y \<le> 0")
    case True
    with Cons.prems show ?thesis
      by (auto intro: comparator_trans [OF assms(1)])
  next
    case False
    with comparator_total [OF assms(1), of x y] have "cmp y x \<le> 0" by simp
    with False Cons show ?thesis by auto
  qed
qed

lemma sorted_sort_by:
  "consistent_comparator cmp \<Longrightarrow> sorted_wrt (\<lambda>a b. cmp a b \<le> 0) (sort_by cmp xs)"
proof (induction xs)
  case Nil
  show ?case by (simp add: sort_by_def)
next
  case (Cons x xs)
  have "sort_by cmp (x # xs) = insert_by cmp x (sort_by cmp xs)" by (simp add: sort_by_def)
  with Cons show ?case by (simp add: sorted_insert_by)
qed









lemma str_lt_irrefl [simp]: "\<not> str_lt a a"
  by (induction a) auto

lemma str_lt_trans: "str_lt a b \<Longrightarrow> str_lt b c \<Longrightarrow> str_lt a c"
proof (induction a b arbitrary: c rule: str_lt.induct)
  case (2 y ys)
  then show ?case by (cases c) auto
next
  case (4 x xs y ys)
  then show ?case by (cases c) auto
qed auto

lemma str_lt_total: "str_lt a b \<or> a = b \<or> str_lt b a"
  by (induction a b rule: str_lt.induct) auto

lemma str_lt_asym: "str_lt a b \<Longrightarrow> \<not> str_lt b a"
  using str_lt_trans [of a b a] by auto


lemma code_unit_compare_lt: "(code_unit_compare a b < 0) = str_lt a b"
  unfolding code_unit_compare_def by simp

lemma code_unit_compare_gt: "(0 < code_unit_compare a b) = str_lt b a"
  unfolding code_unit_compare_def using str_lt_asym [of a b] by (cases "str_lt a b") simp_all

lemma code_unit_compare_le: "(code_unit_compare a b \<le> 0) = (\<not> str_lt b a)"
  unfolding code_unit_compare_def using str_lt_asym [of a b] by (cases "str_lt a b") simp_all

lemma str_lt_trans_le1: "str_lt a b \<Longrightarrow> \<not> str_lt c b \<Longrightarrow> str_lt a c"
  using str_lt_total [of b c] str_lt_trans [of a b c] by blast

lemma str_lt_trans_le2: "\<not> str_lt b a \<Longrightarrow> str_lt b c \<Longrightarrow> str_lt a c"
  using str_lt_total [of a b] str_lt_trans [of a b c] by blast

lemma str_le_trans: "\<not> str_lt b a \<Longrightarrow> \<not> str_lt c b \<Longrightarrow> \<not> str_lt c a"
  using str_lt_trans_le1 [of c a b] by blast

lemma consistent_code_unit_compare: "consistent_comparator code_unit_compare"
  unfolding consistent_comparator_def code_unit_compare_lt code_unit_compare_gt code_unit_compare_le
  using str_lt_trans_le1 str_lt_trans_le2 str_le_trans by blast


lemma table_ok_pattern: "table_ok t \<Longrightarrow> c \<in> set (map snd t) \<Longrightarrow> code_pattern (code c)"
  by (auto simp: table_ok_def list_all_iff)

lemma table_ok_sources:
  assumes "fold_err (scan_source P) srcs [] = Inr t"
  shows "table_ok t"
proof -
  have "table_ok []" by (simp add: table_ok_def)
  then show ?thesis
    using assms by (rule fold_err_invariant [where I = table_ok, rotated 1]) (rule scan_source_ok)
qed


lemma parseCurrenciesJSON_table:
  assumes "parseCurrenciesJSON P raw type = Inr cs"
  obtains t where "table_ok t" and "cs = sort_by (compare_currency P) (map snd t)"
proof -
  from assms obtain t where t: "fold_err (scan_source P) (sources raw type) [] = Inr t"
    and cs: "cs = sort_by (compare_currency P) (map snd t)"
    by (auto simp: parseCurrenciesJSON_def split: sum.splits)
  from table_ok_sources [OF t] cs show ?thesis by (rule that)
qed

lemma parseCurrenciesJSON_codes:
  assumes "parseCurrenciesJSON P raw type = Inr cs"
  shows "list_all (\<lambda>c. code_pattern (code c)) cs"
proof -
  from assms obtain t where ok: "table_ok t" and cs: "cs = sort_by (compare_currency P) (map snd t)"
    by (rule parseCurrenciesJSON_table)
  show ?thesis
    using table_ok_pattern [OF ok] by (auto simp: cs list_all_iff)
qed























lemma code_chain_first_present:
  "code_chain v (nullish (get_prop v ''currency'') d) =
     (case first_present_code v of Some c \<Rightarrow> c | None \<Rightarrow> d)"
  by (simp add: code_chain_def first_present_code_def code_fields_def nullish_def)

lemma first_present_not_nullish: "first_present_code v = Some c \<Longrightarrow> \<not> is_nullish c"
  by (auto simp: first_present_code_def code_fields_def split: if_splits)

lemma code_chain_array:
  "code_chain v (get_prop v ''currency'') =
     (case first_present_code v of Some c \<Rightarrow> c | None \<Rightarrow> get_prop v ''currency'')"
  by (simp add: code_chain_def first_present_code_def code_fields_def nullish_def)

lemma first_present_none_currency:
  "first_present_code v = None \<Longrightarrow> \<not> truthy (get_prop v ''currency'')"
  by (cases "get_prop v ''currency''")
     (auto simp: first_present_code_def code_fields_def split: if_splits)

text \<open>
  C4, amended: for every record (array element or object-map value that is not a
  string) the code is the first of the fields \<open>short_code\<close>, \<open>code\<close>, \<open>iso_code\<close>,
  \<open>ticker\<close>, \<open>currency\<close> that is neither \<open>undefined\<close> nor \<open>null\<close>, whatever its value (an
  empty string included); the record is a candidate when that code and its name are
  truthy. For an object-map value the map key is used as the code only when all five
  fields are \<open>undefined\<close> or \<open>null\<close> (and the key matches the code pattern).
\<close>

theorem code_from_first_present_field:
  "add_item P item tbl =
     (let v = nullish item (JObj []) in
      case first_present_code v of
        None \<Rightarrow> Inr tbl
      | Some c \<Rightarrow>
          if truthy c \<and> truthy (name_chain v c)
          then addCandidate P c (name_chain v c) (symbol_chain v) tbl else Inr tbl)
   \<and> ((\<forall>s. value \<noteq> JStr s) \<longrightarrow>
        add_entry P (key, value) tbl =
          (let v = nullish value (JObj []);
               c = (case first_present_code v of
                      Some c \<Rightarrow> c
                    | None \<Rightarrow> if code_pattern key then JStr key else JUndef)
           in if truthy c \<and> truthy (name_chain v c)
              then addCandidate P c (name_chain v c) (symbol_chain v) tbl else Inr tbl))"
proof -
  have a: "add_item P item tbl =
     (let v = nullish item (JObj []) in
      case first_present_code v of
        None \<Rightarrow> Inr tbl
      | Some c \<Rightarrow>
          if truthy c \<and> truthy (name_chain v c)
          then addCandidate P c (name_chain v c) (symbol_chain v) tbl else Inr tbl)"
    unfolding add_item_def Let_def code_chain_array
    by (auto split: option.splits dest: first_present_none_currency)
  have b: "(\<forall>s. value \<noteq> JStr s) \<longrightarrow>
        add_entry P (key, value) tbl =
          (let v = nullish value (JObj []);
               c = (case first_present_code v of
                      Some c \<Rightarrow> c
                    | None \<Rightarrow> if code_pattern key then JStr key else JUndef)
           in if truthy c \<and> truthy (name_chain v c)
              then addCandidate P c (name_chain v c) (symbol_chain v) tbl else Inr tbl)"
    by (cases "value")
       (auto simp: add_entry_def Let_def code_chain_first_present split: option.splits)
  from a b show ?thesis by simp
qed

theorem code_from_first_present_field_witness:
  "(\<forall>s. JObj [(''name'', JStr ''Yen'')] \<noteq> JStr s)
   \<and> first_present_code (JObj [(''name'', JStr ''Yen'')]) = None
   \<and> add_entry sample_platform (''JPY'', JObj [(''name'', JStr ''Yen'')]) []
       = Inr [(''JPY'', \<lparr>code = ''JPY'', name = ''Yen'', symbol = JUndef\<rparr>)]
   \<and> first_present_code (JObj [(''iso_code'', JStr ''eur''), (''ticker'', JStr ''x'')])
       = Some (JStr ''eur'')
   \<and> add_item sample_platform (JObj [(''iso_code'', JStr ''eur''), (''ticker'', JStr ''x'')]) []
       = Inr [(''EUR'', \<lparr>code = ''EUR'', name = ''eur'', symbol = JUndef\<rparr>)]"
proof -
  have a: "first_present_code (JObj [(''name'', JStr ''Yen'')]) = None" by code_simp
  have b: "first_present_code (JObj [(''iso_code'', JStr ''eur''), (''ticker'', JStr ''x'')])
       = Some (JStr ''eur'')" by code_simp
  have c: "add_entry sample_platform (''JPY'', JObj [(''name'', JStr ''Yen'')]) []
       = Inr [(''JPY'', \<lparr>code = ''JPY'', name = ''Yen'', symbol = JUndef\<rparr>)]" by code_simp
  have d: "add_item sample_platform (JObj [(''iso_code'', JStr ''eur''), (''ticker'', JStr ''x'')]) []
       = Inr [(''EUR'', \<lparr>code = ''EUR'', name = ''eur'', symbol = JUndef\<rparr>)]" by code_simp
  from code_from_first_present_field
         [of sample_platform "JObj [(''iso_code'', JStr ''eur''), (''ticker'', JStr ''x'')]" "[]"
             "JObj [(''name'', JStr ''Yen'')]" "''JPY''"]
       a b c d
  show ?thesis by simp
qed

text \<open>
  C4, as the specification states it, fails twice. A record whose \<open>short_code\<close> is the empty
  string and whose \<open>code\<close> is \<open>USD\<close> has \<open>USD\<close> as its first non-empty code field, but
  \<open>??\<close> stops at the empty string and the record is dropped. An object-map value under
  the key \<open>USD\<close> whose only code field is the number 840 has no code field that matches
  the pattern, but the key is not used and the record is dropped.
\<close>

theorem code_first_nonempty_counterexample:
  "spec_first_nonempty_code
       (JObj [(''short_code'', JStr ''''), (''code'', JStr ''USD''), (''name'', JStr ''US Dollar'')])
     = JStr ''USD''
   \<and> parseCurrenciesJSON sample_platform
       (JArr [JObj [(''short_code'', JStr ''''), (''code'', JStr ''USD''), (''name'', JStr ''US Dollar'')]])
       Fiat = Inr []
   \<and> code_pattern ''USD''
   \<and> normalizeCode sample_platform (JNum (Fin 840)) = Inr ''840''
   \<and> \<not> code_pattern ''840''
   \<and> parseCurrenciesJSON sample_platform
       (JObj [(''USD'', JObj [(''code'', JNum (Fin 840)), (''name'', JStr ''US Dollar'')])])
       Fiat = Inr []"
  by code_simp

section \<open>Properties of the currency cache\<close>

lemma try_catch_total: "(\<And>e. \<exists>v. h e = Inr v) \<Longrightarrow> \<exists>v. try_catch b h = Inr v"
  by (cases b) (auto simp: try_catch_def)

lemma primary_list_returns: "\<exists>l. primary_list P get type = Inr l"
  unfolding primary_list_def by (rule try_catch_total) simp

lemma fallback_list_returns: "\<exists>l. fallback_list get list = Inr l"
  unfolding fallback_list_def by (rule try_catch_total) simp

lemma setItem_returns:
  "setItem_throws S key v = None \<Longrightarrow>
     setItem S key v = Inr (S\<lparr>contents := (contents S)(key \<mapsto> json_image v)\<rparr>)"
  by (simp add: setItem_def)


lemma getItem_returns: "(getItem S key = Inr cached) = (getItem_throws S key = None \<and> cached = contents S key)"
  by (auto simp: getItem_def split: option.splits)

lemma getItem_fails: "(getItem S key = Inl e) = (getItem_throws S key = Some e)"
  by (auto simp: getItem_def split: option.splits)

text \<open>The fetch up to the write: the two lists and the requests do not depend on the store.\<close>

lemma fetch_currencies_write:
  obtains l0 :: "currency list" and l1 where
    "fetch_currencies P get S now1 type =
         (case setItem S (cacheKey type)
                 (cache_entry now1 (map currency_obj (sort_by (compare_currency P) (currencyNames P l1)))) of
            Inl e \<Rightarrow> Inl e
          | Inr S' \<Rightarrow>
              Inr \<lparr> returned = map currency_obj (sort_by (compare_currency P) (currencyNames P l1)),
                     requests = (if length l0 < 5
                                 then [currencies_request type, latest_all_request]
                                 else [currencies_request type]),
                     stored = S' \<rparr>)"
proof -
  obtain l0 where l0: "primary_list P get type = Inr l0"
    using primary_list_returns by blast
  obtain l1 where l1: "(if length l0 < 5 then fallback_list get l0 else Inr l0) = Inr l1"
    using fallback_list_returns [of get l0] by (cases "length l0 < 5") auto
  show ?thesis
    by (rule that [of l1 l0]) (simp only: fetch_currencies_def l0 sum.case l1 Let_def)
qed

lemma fetch_currencies_returns:
  assumes "\<forall>v. setItem_throws S (cacheKey type) v = None"
  shows "\<exists>r. fetch_currencies P get S now1 type = Inr r"
proof -
  obtain l0 :: "currency list" and l1 where
    f: "fetch_currencies P get S now1 type =
         (case setItem S (cacheKey type)
                 (cache_entry now1 (map currency_obj (sort_by (compare_currency P) (currencyNames P l1)))) of
            Inl e \<Rightarrow> Inl e
          | Inr S' \<Rightarrow>
              Inr \<lparr> returned = map currency_obj (sort_by (compare_currency P) (currencyNames P l1)),
                     requests = (if length l0 < 5
                                 then [currencies_request type, latest_all_request]
                                 else [currencies_request type]),
                     stored = S' \<rparr>)"
    by (rule fetch_currencies_write)
  show ?thesis
    unfolding f using assms by (simp add: setItem_returns)
qed






lemma currencyNames_Nil [simp]: "currencyNames P [] = []"
  by (simp add: currencyNames_def split: option.splits)

lemma sort_by_Nil [simp]: "sort_by cmp [] = []"
  by (simp add: sort_by_def)








lemma every_err_True: "every_err f xs = Inr True \<longleftrightarrow> list_all (\<lambda>x. f x = Inr True) xs"
  by (induction xs) (auto split: sum.splits)

lemma cached_items_usable:
  "cached_items P now cached = Some xs \<longleftrightarrow> entry_usable P now cached xs"
proof (cases cached)
  case None
  then show ?thesis by (simp add: cached_items_def entry_usable_def)
next
  case (Some parsed)
  show ?thesis
  proof (cases "js_Number P (get_prop parsed ''at'')")
    case (Inl e)
    then show ?thesis
      using Some by (simp add: cached_items_def entry_usable_def cache_lookup_def)
  next
    case (Inr a)
    show ?thesis
    proof (cases "get_prop parsed ''items''")
      case (JArr ys)
      show ?thesis
      proof (cases "every_err (\<lambda>x. regex_test P (opt_prop x ''code'')) ys")
        case (Inl e)
        then have "\<not> list_all (\<lambda>x. regex_test P (opt_prop x ''code'') = Inr True) ys"
          using every_err_True [of "\<lambda>x. regex_test P (opt_prop x ''code'')" ys] by simp
        with Inl Some Inr JArr show ?thesis
          by (auto simp: cached_items_def entry_usable_def cache_lookup_def)
      next
        case r: (Inr b)
        then have "b = list_all (\<lambda>x. regex_test P (opt_prop x ''code'') = Inr True) ys"
          using every_err_True [of "\<lambda>x. regex_test P (opt_prop x ''code'')" ys] by auto
        with r Some Inr JArr show ?thesis
          by (auto simp: cached_items_def entry_usable_def cache_lookup_def)
      qed
    qed (use Some Inr in \<open>auto simp: cached_items_def entry_usable_def cache_lookup_def\<close>)
  qed
qed

lemma fetch_requests_nonempty:
  "fetch_currencies P get S now1 type = Inr r \<Longrightarrow> requests r \<noteq> []"
  by (auto simp: fetch_currencies_def Let_def split: sum.splits if_splits)

lemma primary_list_codes:
  "primary_list P get type = Inr l \<Longrightarrow> list_all (\<lambda>c. code_pattern (code c)) l"
  by (auto simp: primary_list_def try_catch_def split: sum.splits dest: parseCurrenciesJSON_codes)

lemma codes_from_latest_codes: "list_all (\<lambda>c. code_pattern (code c)) (codes_from_latest latest)"
  by (simp add: codes_from_latest_def list_all_iff)

lemma fallback_list_codes:
  "list_all (\<lambda>c. code_pattern (code c)) l \<Longrightarrow> fallback_list get l = Inr l'
     \<Longrightarrow> list_all (\<lambda>c. code_pattern (code c)) l'"
  using codes_from_latest_codes
  by (auto simp: fallback_list_def try_catch_def split: sum.splits)

lemma map_err_codes:
  assumes "\<And>x y. f x = Inr y \<Longrightarrow> code y = code x"
  shows "map_err f xs = Inr ys \<Longrightarrow> map code ys = map code xs"
  by (induction xs arbitrary: ys) (auto split: sum.splits dest: assms)

lemma currencyNames_codes: "map code (currencyNames P cs) = map code cs"
proof (cases "displayNames P")
  case None
  then show ?thesis by (simp add: currencyNames_def)
next
  case (Some of_code)
  show ?thesis
    unfolding currencyNames_def Some option.case
    by (auto split: sum.splits intro!: map_err_codes [rotated])
qed

lemma list_all_codes_cong:
  assumes "map code xs = map code ys"
  shows "list_all (\<lambda>c. code_pattern (code c)) xs = list_all (\<lambda>c. code_pattern (code c)) ys"
proof -
  have e: "list_all (\<lambda>c. code_pattern (code c)) zs = list_all code_pattern (map code zs)" for zs
    by (simp add: list_all_iff)
  show ?thesis unfolding e assms ..
qed

lemma fetch_currencies_stored:
  assumes "fetch_currencies P get S now1 type = Inr r"
  shows "\<exists>cs. returned r = map currency_obj cs
            \<and> list_all (\<lambda>c. code_pattern (code c)) cs
            \<and> stored r = S\<lparr>contents := (contents S)(cacheKey type \<mapsto>
                  json_image (cache_entry now1 (map currency_obj cs)))\<rparr>"
proof -
  from assms obtain l0 l1 S' where l0: "primary_list P get type = Inr l0"
    and l1: "(if length l0 < 5 then fallback_list get l0 else Inr l0) = Inr l1"
    and w: "setItem S (cacheKey type)
              (cache_entry now1 (map currency_obj (sort_by (compare_currency P) (currencyNames P l1))))
            = Inr S'"
    and r: "r = \<lparr> returned = map currency_obj (sort_by (compare_currency P) (currencyNames P l1)),
                 requests = (if length l0 < 5
                             then [currencies_request type, latest_all_request]
                             else [currencies_request type]),
                 stored = S' \<rparr>"
    by (auto simp: fetch_currencies_def Let_def split: sum.splits)
  have s: "S' = S\<lparr>contents := (contents S)(cacheKey type \<mapsto>
                  json_image (cache_entry now1
                    (map currency_obj (sort_by (compare_currency P) (currencyNames P l1)))))\<rparr>"
    using w by (auto simp: setItem_def split: option.splits)
  have "list_all (\<lambda>c. code_pattern (code c)) l1"
    using primary_list_codes [OF l0] l1 fallback_list_codes [of l0 get l1]
    by (cases "length l0 < 5") auto
  then have "list_all (\<lambda>c. code_pattern (code c)) (currencyNames P l1)"
    using list_all_codes_cong [OF currencyNames_codes [of P l1]] by simp
  then have "list_all (\<lambda>c. code_pattern (code c)) (sort_by (compare_currency P) (currencyNames P l1))"
    by (simp add: list_all_iff)
  with r s show ?thesis by auto
qed

lemma stored_item_code: "opt_prop (json_image (currency_obj c)) ''code'' = JStr (code c)"
  by (simp add: currency_obj_def opt_prop_def)

lemma json_elems_currency_obj:
  "json_elems (map currency_obj cs) = map (\<lambda>c. json_image (currency_obj c)) cs"
  by (induction cs) (simp_all add: currency_obj_def)

lemma stored_items_valid:
  "list_all (\<lambda>c. code_pattern (code c)) cs \<Longrightarrow>
     list_all (\<lambda>x. regex_test P (opt_prop x ''code'') = Inr True) (json_elems (map currency_obj cs))"
  unfolding json_elems_currency_obj
  by (induction cs) (simp_all add: stored_item_code regex_test_def)

lemma stored_entry_usable:
  assumes "list_all (\<lambda>c. code_pattern (code c)) cs" and "cs \<noteq> []"
  shows "entry_usable P now2 (Some (json_image (cache_entry now1 (map currency_obj cs)))) xs
         \<longleftrightarrow> now2 - now1 < 86400000 \<and> xs = json_elems (map currency_obj cs)"
proof -
  have n: "json_elems (map currency_obj cs) \<noteq> []"
    using assms(2) by (cases cs) (simp_all add: json_elems_currency_obj)
  have lt: "(of_int now2 - of_int now1 < (86400000::rat)) = (now2 - now1 < 86400000)"
    by (metis of_int_diff of_int_less_iff of_int_numeral)
  show ?thesis
    using stored_items_valid [OF assms(1), of P] n
    by (auto simp: entry_usable_def cache_entry_def ONE_DAY_def lt)
qed

lemma getCurrencies_hit:
  "(getCurrencies P get S now0 now1 type = Inr \<lparr>returned = xs, requests = [], stored = S\<rparr>)
   = (\<exists>cached. getItem S (cacheKey type) = Inr cached \<and> entry_usable P now0 cached xs)"
proof (cases "getItem S (cacheKey type)")
  case (Inl e)
  then show ?thesis by (simp add: getCurrencies_def)
next
  case (Inr cached)
  show ?thesis
  proof (cases "cached_items P now0 cached")
    case None
    then have "\<not> entry_usable P now0 cached xs"
      using cached_items_usable [of P now0 cached xs] by simp
    moreover have "getCurrencies P get S now0 now1 type
        \<noteq> Inr \<lparr>returned = xs, requests = [], stored = S\<rparr>"
      using Inr None fetch_requests_nonempty [of P get S now1 type]
      by (auto simp: getCurrencies_def)
    ultimately show ?thesis using Inr by simp
  next
    case (Some ys)
    then show ?thesis
      using Inr cached_items_usable [of P now0 cached xs]
      by (auto simp: getCurrencies_def)
  qed
qed

lemma getCurrencies_miss:
  "getItem S (cacheKey type) = Inr cached \<Longrightarrow> (\<And>xs. \<not> entry_usable P now0 cached xs) \<Longrightarrow>
     getCurrencies P get S now0 now1 type = fetch_currencies P get S now1 type"
  using cached_items_usable [of P now0 cached]
  by (cases "cached_items P now0 cached") (auto simp: getCurrencies_def)

text \<open>
  C5, amended: \<open>getCurrencies\<close> returns the items \<open>xs\<close> of the stored entry at once (no
  request, the store untouched) if and only if \<open>getItem\<close> returns an entry that is
  present, whose age is strictly under 24 hours, whose \<open>items\<close> are a non-empty array
  \<open>xs\<close>, and every item's code matches the code pattern. After a fetch that returned a
  non-empty list and wrote it, a call that reads the written entry less than 24 hours
  later returns that list as \<open>JSON\<close> kept it, and a call 24 hours later or more fetches
  again.
\<close>

theorem cache_hit_iff_usable:
  "((getCurrencies P get S now0 now1 type
       = Inr \<lparr>returned = xs, requests = [], stored = S\<rparr>)
     = (\<exists>cached. getItem S (cacheKey type) = Inr cached \<and> entry_usable P now0 cached xs))
   \<and> (fetch_currencies P get S now1 type = Inr r \<and> returned r \<noteq> []
        \<and> getItem S2 (cacheKey type) = Inr (contents (stored r) (cacheKey type)) \<longrightarrow>
        (now2 - now1 < 86400000 \<longrightarrow>
           getCurrencies P get2 S2 now2 now3 type
             = Inr \<lparr>returned = json_elems (returned r), requests = [], stored = S2\<rparr>)
        \<and> (86400000 \<le> now2 - now1 \<longrightarrow>
             getCurrencies P get2 S2 now2 now3 type
               = fetch_currencies P get2 S2 now3 type))"
proof -
  have b: "(now2 - now1 < 86400000 \<longrightarrow>
           getCurrencies P get2 S2 now2 now3 type
             = Inr \<lparr>returned = json_elems (returned r), requests = [], stored = S2\<rparr>)
        \<and> (86400000 \<le> now2 - now1 \<longrightarrow>
             getCurrencies P get2 S2 now2 now3 type
               = fetch_currencies P get2 S2 now3 type)"
    if f: "fetch_currencies P get S now1 type = Inr r" and ne: "returned r \<noteq> []"
      and g: "getItem S2 (cacheKey type) = Inr (contents (stored r) (cacheKey type))"
  proof -
    from fetch_currencies_stored [OF f] obtain cs where
      ret: "returned r = map currency_obj cs"
      and ok: "list_all (\<lambda>c. code_pattern (code c)) cs"
      and st: "stored r = S\<lparr>contents := (contents S)(cacheKey type \<mapsto>
                  json_image (cache_entry now1 (map currency_obj cs)))\<rparr>"
      by blast
    have cs: "cs \<noteq> []" using ne ret by auto
    have look: "contents (stored r) (cacheKey type) =
        Some (json_image (cache_entry now1 (map currency_obj cs)))"
      by (simp add: st)
    have u: "entry_usable P now2 (contents (stored r) (cacheKey type)) xs
         \<longleftrightarrow> now2 - now1 < 86400000 \<and> xs = json_elems (returned r)" for xs
      unfolding look ret by (rule stored_entry_usable [OF ok cs])
    have fresh: "now2 - now1 < 86400000 \<Longrightarrow>
        getCurrencies P get2 S2 now2 now3 type
          = Inr \<lparr>returned = json_elems (returned r), requests = [], stored = S2\<rparr>"
      using getCurrencies_hit [of P get2 S2 now2 now3 type "json_elems (returned r)"] u g
      by simp
    have stale: "86400000 \<le> now2 - now1 \<Longrightarrow>
        getCurrencies P get2 S2 now2 now3 type
          = fetch_currencies P get2 S2 now3 type"
    proof -
      assume "86400000 \<le> now2 - now1"
      then have "\<not> entry_usable P now2 (contents (stored r) (cacheKey type)) xs" for xs
        using u [of xs] by simp
      then show ?thesis by (rule getCurrencies_miss [OF g])
    qed
    from fresh stale show ?thesis by blast
  qed
  from getCurrencies_hit [of P get S now0 now1 type xs] b show ?thesis by blast
qed

text \<open>
  C5, as the specification states it, fails: an entry written 1000 ms ago whose list is empty
  is present, fresh and has no item with a bad code, yet \<open>getCurrencies\<close> does not
  return it: \<open>looksValid\<close> requires \<open>items.length > 0\<close>, and both requests are issued.
\<close>

theorem cache_empty_list_counterexample:
  "spec_entry_usable sample_platform 2000 (Some empty_entry)
   \<and> getItem (working_store (\<lambda>k. Some empty_entry)) (cacheKey Fiat) = Inr (Some empty_entry)
   \<and> map_sum id requests
        (getCurrencies sample_platform transport_down (working_store (\<lambda>k. Some empty_entry))
           2000 3000 Fiat)
      = Inr [currencies_request Fiat, latest_all_request]"
  by code_simp

lemma small_fetch_returned:
  "map_sum id returned
     (fetch_currencies sample_platform small_list_transport (working_store (\<lambda>k. None)) 1000 Fiat)
   = Inr [ JObj [(''code'', JStr ''EUR''), (''name'', JStr ''Euro''), (''symbol'', JUndef)],
           JObj [(''code'', JStr ''USD''), (''name'', JStr ''US Dollar''), (''symbol'', JUndef)] ]"
  by code_simp

lemma small_fetch_image:
  "json_elems [ JObj [(''code'', JStr ''EUR''), (''name'', JStr ''Euro''), (''symbol'', JUndef)],
           JObj [(''code'', JStr ''USD''), (''name'', JStr ''US Dollar''), (''symbol'', JUndef)] ]
   = [ JObj [(''code'', JStr ''EUR''), (''name'', JStr ''Euro'')],
       JObj [(''code'', JStr ''USD''), (''name'', JStr ''US Dollar'')] ]"
  by simp

theorem cache_hit_iff_usable_witness:
  "\<exists>r. fetch_currencies sample_platform small_list_transport (working_store (\<lambda>k. None)) 1000 Fiat = Inr r
      \<and> returned r \<noteq> []
      \<and> getItem (stored r) (cacheKey Fiat) = Inr (contents (stored r) (cacheKey Fiat))
      \<and> (2000::int) - 1000 < 86400000
      \<and> getCurrencies sample_platform transport_down (stored r) 2000 3000 Fiat
          = Inr \<lparr>returned = [ JObj [(''code'', JStr ''EUR''), (''name'', JStr ''Euro'')],
                               JObj [(''code'', JStr ''USD''), (''name'', JStr ''US Dollar'')] ],
                  requests = [], stored = stored r\<rparr>
      \<and> (86400000::int) \<le> 86401000 - 1000
      \<and> getCurrencies sample_platform transport_down (stored r) 86401000 86402000 Fiat
          = fetch_currencies sample_platform transport_down (stored r) 86402000 Fiat"
proof -
  have w: "\<forall>v. setItem_throws (working_store (\<lambda>k. None)) (cacheKey Fiat) v = None"
    by (simp add: working_store_def)
  obtain r where r: "fetch_currencies sample_platform small_list_transport (working_store (\<lambda>k. None)) 1000 Fiat = Inr r"
    using fetch_currencies_returns [OF w] by blast
  have ret: "returned r = [ JObj [(''code'', JStr ''EUR''), (''name'', JStr ''Euro''), (''symbol'', JUndef)],
           JObj [(''code'', JStr ''USD''), (''name'', JStr ''US Dollar''), (''symbol'', JUndef)] ]"
    using small_fetch_returned unfolding r by simp
  have ne: "returned r \<noteq> []" unfolding ret by simp
  have g: "getItem (stored r) (cacheKey Fiat) = Inr (contents (stored r) (cacheKey Fiat))"
    using fetch_currencies_stored [OF r] by (auto simp: getItem_def working_store_def)
  have h1: "getCurrencies sample_platform transport_down (stored r) 2000 3000 Fiat
          = Inr \<lparr>returned = json_elems (returned r), requests = [], stored = stored r\<rparr>"
    using cache_hit_iff_usable
         [of sample_platform small_list_transport "working_store (\<lambda>k. None)" 0 1000 Fiat "[]" r
             "stored r" 2000 transport_down 3000]
       r ne g by simp
  have h2: "getCurrencies sample_platform transport_down (stored r) 86401000 86402000 Fiat
          = fetch_currencies sample_platform transport_down (stored r) 86402000 Fiat"
    using cache_hit_iff_usable
         [of sample_platform small_list_transport "working_store (\<lambda>k. None)" 0 1000 Fiat "[]" r
             "stored r" 86401000 transport_down 86402000]
       r ne g by simp
  have h3: "json_elems (returned r) = [ JObj [(''code'', JStr ''EUR''), (''name'', JStr ''Euro'')],
                               JObj [(''code'', JStr ''USD''), (''name'', JStr ''US Dollar'')] ]"
    unfolding ret by (rule small_fetch_image)
  show ?thesis
    using r ne g h1 h2 unfolding h3 by (intro exI [of _ r]) simp
qed

section \<open>Properties of the conversion engine\<close>

lemma convert_primary_failed:
  "primary_failed P get from to amount \<longleftrightarrow> (\<exists>e. convert_primary P get from to amount = Inl e)"
  by (auto simp: primary_failed_def convert_primary_def split: sum.splits)

lemma convertOnce_fallback:
  "primary_failed P get (toUpperCase (trim pf)) (toUpperCase (trim pt)) (normalize_amount pa) \<Longrightarrow>
     convertOnce P get pf pt pa =
       convertViaUSD get (toUpperCase (trim pf)) (toUpperCase (trim pt)) (normalize_amount pa)"
  by (auto simp: convert_primary_failed convertOnce_def Let_def try_catch_def)

lemma convertOnce_primary:
  "\<not> primary_failed P get (toUpperCase (trim pf)) (toUpperCase (trim pt)) (normalize_amount pa) \<Longrightarrow>
     convertOnce P get pf pt pa =
       convert_primary P get (toUpperCase (trim pf)) (toUpperCase (trim pt)) (normalize_amount pa)"
  unfolding convert_primary_failed convertOnce_def Let_def try_catch_def
  by (cases "convert_primary P get (toUpperCase (trim pf)) (toUpperCase (trim pt)) (normalize_amount pa)") auto

lemma convertViaUSD_cross_rate:
  "get (latest_request from to) = Inr latest \<Longrightarrow>
     convertViaUSD get from to amount = spec_cross_rate (parseRates latest) from to amount"
  by (auto simp: convertViaUSD_def spec_cross_rate_def usd_rate_def rate_of_def Let_def
      split: option.splits)

lemma convertViaUSD_transport:
  "get (latest_request from to) = Inl e \<Longrightarrow> convertViaUSD get from to amount = Inl e"
  by (simp add: convertViaUSD_def)

lemma symbolsNeeded_set: "set (symbolsNeeded from to) = {from, to} - {''USD''}"
  by (auto simp: symbolsNeeded_def)

lemma set_uniq_acc: "set (uniq_acc seen xs) = set xs - set seen"
  by (induction xs arbitrary: seen) auto

lemma distinct_uniq_acc: "distinct (uniq_acc seen xs)"
  by (induction xs arbitrary: seen) (auto simp: set_uniq_acc)

lemma uniq_symbols:
  "set (uniq (symbolsNeeded from to)) = {from, to} - {''USD''} \<and> distinct (uniq (symbolsNeeded from to))"
  by (simp add: uniq_def set_uniq_acc distinct_uniq_acc symbolsNeeded_set)

text \<open>
  C1, amended: whenever the \<open>/convert\<close> call fails or yields a number that is not
  finite, \<open>convertOnce\<close> is \<open>convertViaUSD\<close>: it requests \<open>latest\<close> with the sides that are
  not USD as \<open>symbols\<close> (each once, and no \<open>symbols\<close> when there is none); when that
  request returns a payload it resolves each side's USD rate (1 for USD, the rate map
  entry otherwise), fails with \<open>FallbackUnavailable\<close> exactly when a required rate is
  missing, and otherwise returns \<open>amount * (toRateUSD / fromRateUSD)\<close>, that rate and the
  fallback metadata; when the \<open>latest\<close> request itself fails, its error is thrown.
\<close>

theorem convertOnce_falls_back_to_cross_rate:
  fixes pf pt :: string and pa :: number
  defines "from \<equiv> toUpperCase (trim pf)" and "to \<equiv> toUpperCase (trim pt)"
    and "amount \<equiv> normalize_amount pa"
  assumes "primary_failed P get from to amount"
  shows "convertOnce P get pf pt pa = convertViaUSD get from to amount
         \<and> fst (latest_request from to) = ''latest''
         \<and> set (uniq (symbolsNeeded from to)) = {from, to} - {''USD''}
         \<and> distinct (uniq (symbolsNeeded from to))
         \<and> snd (latest_request from to) =
             (if join '','' (uniq (symbolsNeeded from to)) = [] then []
              else [(''symbols'', JStr (join '','' (uniq (symbolsNeeded from to))))])
         \<and> (\<forall>latest. get (latest_request from to) = Inr latest \<longrightarrow>
               convertOnce P get pf pt pa = spec_cross_rate (parseRates latest) from to amount)
         \<and> (\<forall>e. get (latest_request from to) = Inl e \<longrightarrow> convertOnce P get pf pt pa = Inl e)"
proof -
  have a: "convertOnce P get pf pt pa = convertViaUSD get from to amount"
    using assms(4) unfolding from_def to_def amount_def by (rule convertOnce_fallback)
  have b: "fst (latest_request from to) = ''latest''"
    "snd (latest_request from to) =
             (if join '','' (uniq (symbolsNeeded from to)) = [] then []
              else [(''symbols'', JStr (join '','' (uniq (symbolsNeeded from to))))])"
    by (simp_all add: latest_request_def Let_def)
  show ?thesis
    using a b uniq_symbols [of "from" "to"] convertViaUSD_cross_rate [of get "from" "to" _ amount]
      convertViaUSD_transport [of get "from" "to" _ amount]
    by simp
qed

theorem convertOnce_falls_back_to_cross_rate_witness:
  "primary_failed sample_platform latest_only_transport
      (toUpperCase (trim ''usd'')) (toUpperCase (trim '' USD '')) (normalize_amount (Fin 100))
   \<and> latest_only_transport
        (latest_request (toUpperCase (trim ''usd'')) (toUpperCase (trim '' USD '')))
       = Inr latest_payload
   \<and> convertOnce sample_platform latest_only_transport ''usd'' '' USD '' (Fin 100)
       = Inr \<lparr> result = Fin 100, rate = Some (Fin 1),
                meta = fallback_meta [(''EUR'', Fin (9 / 10)), (''GBP'', Fin (3 / 4))] \<rparr>"
proof -
  have h: "primary_failed sample_platform latest_only_transport
      (toUpperCase (trim ''usd'')) (toUpperCase (trim '' USD '')) (normalize_amount (Fin 100))"
    by code_simp
  have l: "latest_only_transport
        (latest_request (toUpperCase (trim ''usd'')) (toUpperCase (trim '' USD '')))
       = Inr latest_payload"
    by code_simp
  have s: "spec_cross_rate (parseRates latest_payload)
        (toUpperCase (trim ''usd'')) (toUpperCase (trim '' USD '')) (normalize_amount (Fin 100))
       = Inr \<lparr> result = Fin 100, rate = Some (Fin 1),
                meta = fallback_meta [(''EUR'', Fin (9 / 10)), (''GBP'', Fin (3 / 4))] \<rparr>"
    by code_simp
  from convertOnce_falls_back_to_cross_rate [OF h] l
  have c: "convertOnce sample_platform latest_only_transport ''usd'' '' USD '' (Fin 100)
       = spec_cross_rate (parseRates latest_payload)
           (toUpperCase (trim ''usd'')) (toUpperCase (trim '' USD '')) (normalize_amount (Fin 100))"
    by blast
  show ?thesis using h l unfolding c s by simp
qed

text \<open>
  C1, as the specification states it, fails: for USD to USD no rate is required, so
  \<open>convertOnce\<close> should return 100 at rate 1 whenever the primary call fails; but when
  the \<open>latest\<close> request fails too, \<open>convertOnce\<close> throws its error.
\<close>

theorem fallback_latest_failure_counterexample:
  "primary_failed sample_platform transport_down ''USD'' ''USD'' (Fin 100)
   \<and> symbolsNeeded ''USD'' ''USD'' = []
   \<and> spec_cross_rate [] ''USD'' ''USD'' (Fin 100)
       = Inr \<lparr> result = Fin 100, rate = Some (Fin 1), meta = fallback_meta [] \<rparr>
   \<and> convertOnce sample_platform transport_down ''USD'' ''USD'' (Fin 100) = Inl TransportError"
  by code_simp

text \<open>
  C2, amended: every failure of the primary \<open>/convert\<close> call (the request fails, the
  conversion of its result to a number throws, or the number is not finite) is caught
  inside \<open>convertOnce\<close> and starts the fallback: the outcome of \<open>convertOnce\<close> is then
  the outcome of \<open>convertViaUSD\<close>, whether a result or an error. An error of
  \<open>convertOnce\<close> is an error of the fallback \<open>convertViaUSD\<close> after a failed primary
  call: either the error with which the \<open>latest\<close> request failed, or
  \<open>FallbackUnavailable\<close> when that request returned and a required rate is missing.
\<close>

theorem convertOnce_errors:
  fixes pf pt :: string and pa :: number
  defines "from \<equiv> toUpperCase (trim pf)" and "to \<equiv> toUpperCase (trim pt)"
    and "amount \<equiv> normalize_amount pa"
  shows "(primary_failed P get from to amount \<longrightarrow>
            convertOnce P get pf pt pa = convertViaUSD get from to amount)
         \<and> (\<forall>e. convertOnce P get pf pt pa = Inl e \<longrightarrow>
               primary_failed P get from to amount
               \<and> convertViaUSD get from to amount = Inl e
               \<and> (get (latest_request from to) = Inl e
                  \<or> (e = FallbackUnavailable
                      \<and> (\<exists>latest. get (latest_request from to) = Inr latest
                            \<and> (usd_rate (parseRates latest) from = None
                                \<or> usd_rate (parseRates latest) to = None)))))"
proof -
  have a: "convertOnce P get pf pt pa = convertViaUSD get from to amount"
    if "primary_failed P get from to amount"
    using that unfolding from_def to_def amount_def by (rule convertOnce_fallback)
  have b: "primary_failed P get from to amount
         \<and> convertViaUSD get from to amount = Inl e
         \<and> (get (latest_request from to) = Inl e
            \<or> (e = FallbackUnavailable
                \<and> (\<exists>latest. get (latest_request from to) = Inr latest
                      \<and> (usd_rate (parseRates latest) from = None
                          \<or> usd_rate (parseRates latest) to = None))))"
    if err: "convertOnce P get pf pt pa = Inl e" for e
  proof -
    have f: "primary_failed P get from to amount"
    proof (rule ccontr)
      assume n: "\<not> primary_failed P get from to amount"
      then have "convertOnce P get pf pt pa = convert_primary P get from to amount"
        unfolding from_def to_def amount_def by (rule convertOnce_primary)
      with err n show False by (simp add: convert_primary_failed)
    qed
    then have v: "convertViaUSD get from to amount = Inl e"
      using err a by simp
    have "get (latest_request from to) = Inl e
            \<or> (e = FallbackUnavailable
                \<and> (\<exists>latest. get (latest_request from to) = Inr latest
                      \<and> (usd_rate (parseRates latest) from = None
                          \<or> usd_rate (parseRates latest) to = None)))"
      using v
      by (cases "get (latest_request from to)")
         (auto simp: convertViaUSD_def Let_def split: option.splits)
    with f v show ?thesis by simp
  qed
  from a b show ?thesis by blast
qed

theorem convertOnce_errors_witness:
  "primary_failed sample_platform latest_only_transport
        (toUpperCase (trim ''eur'')) (toUpperCase (trim ''jpy'')) (normalize_amount (Fin 90))
   \<and> convertOnce sample_platform latest_only_transport ''eur'' ''jpy'' (Fin 90)
       = convertViaUSD latest_only_transport
           (toUpperCase (trim ''eur'')) (toUpperCase (trim ''jpy'')) (normalize_amount (Fin 90))
   \<and> convertOnce sample_platform latest_only_transport ''eur'' ''jpy'' (Fin 90) = Inl FallbackUnavailable
   \<and> latest_only_transport (latest_request (toUpperCase (trim ''eur'')) (toUpperCase (trim ''jpy'')))
       \<noteq> Inl FallbackUnavailable
   \<and> usd_rate (parseRates latest_payload) (toUpperCase (trim ''jpy'')) = None"
proof -
  have p: "primary_failed sample_platform latest_only_transport
        (toUpperCase (trim ''eur'')) (toUpperCase (trim ''jpy'')) (normalize_amount (Fin 90))"
    by code_simp
  have h: "convertOnce sample_platform latest_only_transport ''eur'' ''jpy'' (Fin 90) = Inl FallbackUnavailable"
    by code_simp
  have l: "latest_only_transport (latest_request (toUpperCase (trim ''eur'')) (toUpperCase (trim ''jpy'')))
       \<noteq> Inl FallbackUnavailable"
    by code_simp
  have u: "usd_rate (parseRates latest_payload) (toUpperCase (trim ''jpy'')) = None"
    by code_simp
  have c: "convertOnce sample_platform latest_only_transport ''eur'' ''jpy'' (Fin 90)
       = convertViaUSD latest_only_transport
           (toUpperCase (trim ''eur'')) (toUpperCase (trim ''jpy'')) (normalize_amount (Fin 90))"
    using convertOnce_errors [of sample_platform latest_only_transport "''eur''" "''jpy''" "Fin 90"] p
    by blast
  have "primary_failed sample_platform latest_only_transport
        (toUpperCase (trim ''eur'')) (toUpperCase (trim ''jpy'')) (normalize_amount (Fin 90))
      \<and> convertViaUSD latest_only_transport
           (toUpperCase (trim ''eur'')) (toUpperCase (trim ''jpy'')) (normalize_amount (Fin 90))
         = Inl FallbackUnavailable"
    using convertOnce_errors [of sample_platform latest_only_transport "''eur''" "''jpy''" "Fin 90"] h
    by blast
  with c h l u show ?thesis by simp
qed

text \<open>
  C2, as the specification states it, fails: with every request failing, the error that
  \<open>convertOnce\<close> surfaces for EUR to GBP is the transport error of the \<open>latest\<close> request,
  not \<open>FallbackUnavailable\<close>.
\<close>

theorem fallback_error_counterexample:
  "primary_failed sample_platform transport_down ''EUR'' ''GBP'' (Fin 100)
   \<and> convertOnce sample_platform transport_down ''EUR'' ''GBP'' (Fin 100) = Inl TransportError
   \<and> TransportError \<noteq> FallbackUnavailable"
  by code_simp

text \<open>
  C6, amended: with an amount of 0 (or \<open>NaN\<close>, which becomes 0), a result of the
  primary path has \<open>rate\<close> undefined; a result of the fallback path has the cross rate
  \<open>toRateUSD / fromRateUSD\<close> as its \<open>rate\<close>, and \<open>0 * rate\<close> as its result.
\<close>

theorem zero_amount_rate:
  fixes pf pt :: string and pa :: number
  defines "from \<equiv> toUpperCase (trim pf)" and "to \<equiv> toUpperCase (trim pt)"
  assumes "normalize_amount pa = Fin 0" and "convertOnce P get pf pt pa = Inr r"
  shows "(\<not> primary_failed P get from to (Fin 0) \<longrightarrow> rate r = None)
         \<and> (primary_failed P get from to (Fin 0) \<longrightarrow>
              (\<exists>latest f t. get (latest_request from to) = Inr latest
                 \<and> usd_rate (parseRates latest) from = Some f
                 \<and> usd_rate (parseRates latest) to = Some t
                 \<and> rate r = Some (num_div t f)
                 \<and> result r = num_mul (Fin 0) (num_div t f)))"
proof -
  have a: "rate r = None" if "\<not> primary_failed P get from to (Fin 0)"
  proof -
    have "convert_primary P get from to (Fin 0) = Inr r"
      using that assms(3,4) convertOnce_primary [of P get pf pt pa]
      unfolding from_def to_def by simp
    then show ?thesis
      by (auto simp: convert_primary_def split: sum.splits if_splits)
  qed
  have b: "\<exists>latest f t. get (latest_request from to) = Inr latest
                 \<and> usd_rate (parseRates latest) from = Some f
                 \<and> usd_rate (parseRates latest) to = Some t
                 \<and> rate r = Some (num_div t f)
                 \<and> result r = num_mul (Fin 0) (num_div t f)"
    if "primary_failed P get from to (Fin 0)"
  proof -
    have "convertViaUSD get from to (Fin 0) = Inr r"
      using that assms(3,4) convertOnce_fallback [of P get pf pt pa]
      unfolding from_def to_def by simp
    then show ?thesis
      by (cases "get (latest_request from to)")
         (auto simp: convertViaUSD_def Let_def split: option.splits)
  qed
  from a b show ?thesis by blast
qed

text \<open>
  C6, as the specification states it, fails on the fallback path: USD to USD with amount 0 and
  a failing primary call yields \<open>rate = 1\<close>, not \<open>undefined\<close>.
\<close>

theorem zero_amount_fallback_counterexample:
  "normalize_amount (Fin 0) = Fin 0
   \<and> primary_failed sample_platform latest_only_transport ''USD'' ''USD'' (Fin 0)
   \<and> map_sum id rate (convertOnce sample_platform latest_only_transport ''USD'' ''USD'' (Fin 0))
       = Inr (Some (Fin 1))"
  by code_simp

theorem zero_amount_rate_witness:
  "normalize_amount NaN = Fin 0
   \<and> \<not> primary_failed sample_platform convert_ok_transport
          (toUpperCase (trim ''usd'')) (toUpperCase (trim ''eur'')) (Fin 0)
   \<and> convertOnce sample_platform convert_ok_transport ''usd'' ''eur'' NaN
       = Inr \<lparr> result = Fin 0, rate = None, meta = convert_payload \<rparr>
   \<and> normalize_amount (Fin 0) = Fin 0
   \<and> primary_failed sample_platform latest_only_transport
          (toUpperCase (trim ''eur'')) (toUpperCase (trim ''gbp'')) (Fin 0)
   \<and> convertOnce sample_platform latest_only_transport ''eur'' ''gbp'' (Fin 0)
       = Inr \<lparr> result = Fin 0, rate = Some (Fin (5 / 6)),
                meta = fallback_meta [(''EUR'', Fin (9 / 10)), (''GBP'', Fin (3 / 4))] \<rparr>"
proof -
  have n: "normalize_amount NaN = Fin 0" "normalize_amount (Fin 0) = Fin 0" by code_simp+
  have p: "\<not> primary_failed sample_platform convert_ok_transport
          (toUpperCase (trim ''usd'')) (toUpperCase (trim ''eur'')) (Fin 0)" by code_simp
  have c: "convertOnce sample_platform convert_ok_transport ''usd'' ''eur'' NaN
       = Inr \<lparr> result = Fin 0, rate = None, meta = convert_payload \<rparr>" by code_simp
  have q: "primary_failed sample_platform latest_only_transport
          (toUpperCase (trim ''eur'')) (toUpperCase (trim ''gbp'')) (Fin 0)" by code_simp
  have d: "convertOnce sample_platform latest_only_transport ''eur'' ''gbp'' (Fin 0)
       = Inr \<lparr> result = Fin 0, rate = Some (Fin (5 / 6)),
                meta = fallback_meta [(''EUR'', Fin (9 / 10)), (''GBP'', Fin (3 / 4))] \<rparr>"
    by code_simp
  from zero_amount_rate [OF n(1) c] zero_amount_rate [OF n(2) d] n p c q d
  show ?thesis by simp
qed

section \<open>Properties of the timeseries engine\<close>

lemma sorted_wrt_strict:
  "sorted_wrt P xs \<Longrightarrow> distinct xs \<Longrightarrow> sorted_wrt (\<lambda>a b. P a b \<and> a \<noteq> b) xs"
  by (induction xs) auto

lemma sorted_keys_strict:
  assumes "distinct keys"
  shows "sorted_wrt str_lt (sort_by code_unit_compare keys)"
proof -
  have d: "distinct (sort_by code_unit_compare keys)"
    using distinct_map_sort_by [of id code_unit_compare keys] assms by simp
  have s: "sorted_wrt (\<lambda>a b. code_unit_compare a b \<le> 0) (sort_by code_unit_compare keys)"
    by (rule sorted_sort_by [OF consistent_code_unit_compare])
  have "sorted_wrt (\<lambda>a b. code_unit_compare a b \<le> 0 \<and> a \<noteq> b) (sort_by code_unit_compare keys)"
    by (rule sorted_wrt_strict [OF s d])
  then show ?thesis
    by (rule sorted_wrt_mono_rel [rotated])
       (use str_lt_total in \<open>auto simp: code_unit_compare_le\<close>)
qed

lemma day_point_date: "day_point from to buckets d = Some p \<Longrightarrow> point_date p = d"
  by (auto simp: day_point_def Let_def split: js.splits)

lemma map_filter_dates:
  "map point_date (List.map_filter (day_point from to buckets) ds)
     = filter (\<lambda>d. day_point from to buckets d \<noteq> None) ds"
  by (induction ds) (auto simp: List.map_filter_simps day_point_date split: option.splits)

text \<open>
  The batch path keeps what C7 says: the dates are the keys of one object, sorted by
  code units, so the series is strictly ascending; a date with a rate missing gives no
  point.
\<close>

lemma batch_series_strictly_ascending:
  assumes "distinct (Object_keys (buckets_field json))"
  shows "sorted_wrt str_lt (map point_date (batch_series from to json))"
  unfolding batch_series_def Let_def map_filter_dates
  by (rule sorted_wrt_filter) (rule sorted_keys_strict [OF assms])

lemma batch_skips_incomplete_date:
  "day_point from to buckets d = None \<Longrightarrow>
     d \<notin> set (map point_date (List.map_filter (day_point from to buckets) ds))"
  unfolding map_filter_dates by simp

lemma batch_two_days_one_point:
  "getTimeseries utc_platform batch_transport ''eur'' ''gbp'' ''2024-01-01'' ''2024-01-02''
     = Some [\<lparr>point_date = ''2024-01-01'', point_rate = Fin (5 / 6)\<rparr>]"
  by code_simp

lemma per_day_utc_run:
  "getTimeseries utc_platform historical_transport ''eur'' ''gbp'' ''2024-03-30'' ''2024-04-01''
     = Some [ \<lparr>point_date = ''2024-03-30'', point_rate = Fin (5 / 6)\<rparr>,
              \<lparr>point_date = ''2024-03-31'', point_rate = Fin (5 / 6)\<rparr>,
              \<lparr>point_date = ''2024-04-01'', point_rate = Fin (5 / 6)\<rparr> ]"
  by code_simp

text \<open>
  C7 fails on the per-day path. The loop steps \<open>d\<close> by one day of local time and prints
  the UTC date. In Europe/Berlin the local day that begins at 01:00 on 2024-03-31 has
  23 hours, so from 2024-03-30 to 2024-04-01 the loop lists 2024-03-31 twice and never
  2024-04-01; \<open>/historical\<close> is asked twice for 2024-03-31, and the series returned has
  two points of that date. The final sort orders the points and removes none.
\<close>

theorem per_day_duplicate_dates:
  "enumerate_days cet_platform ''2024-03-30'' ''2024-04-01''
     = Some [''2024-03-30'', ''2024-03-31'', ''2024-03-31'']
   \<and> getTimeseries cet_platform historical_transport ''EUR'' ''GBP'' ''2024-03-30'' ''2024-04-01''
     = Some [ \<lparr>point_date = ''2024-03-30'', point_rate = Fin (5 / 6)\<rparr>,
              \<lparr>point_date = ''2024-03-31'', point_rate = Fin (5 / 6)\<rparr>,
              \<lparr>point_date = ''2024-03-31'', point_rate = Fin (5 / 6)\<rparr> ]
   \<and> \<not> distinct [''2024-03-30'', ''2024-03-31'', ''2024-03-31'']"
  by code_simp

end
